theory Spec2Isabelle
  imports Complex_Main "HOL-Library.Sublist" "HOL-Library.AList"
begin

section \<open>Plain data shared by the models\<close>

text \<open>
  Python floats are modelled as reals and Python ints as integers. Every score that the
  theorems below evaluate at a concrete input is a small dyadic or decimal value on which
  the source performs the same comparisons. Timestamps are clock readings in seconds.
\<close>

type_synonym timestamp = real

datatype pyval = PyNone | PyBool bool | PyInt int | PyFloat real | PyStr string

type_synonym pydict = "(string \<times> pyval) list"

datatype py_error = ValueError string | ZeroDivisionError | RuntimeError string

section \<open>Observations (models/observation.py, as the dictionaries the worker passes on)\<close>

text \<open>
  A span's \<open>status\<close> is the value under that key, \<open>None\<close> when the key is missing;
  a JSON \<open>null\<close> there is \<open>Some PyNone\<close>.
\<close>

record Span =
  operationName :: string
  duration :: int
  span_status :: "pyval option"
  span_error :: bool
  span_error_tag :: "string option"

record observation =
  status_code :: "int option"
  latency_ms :: "real option"
  error_rate :: "real option"
  error_logs :: "string list"
  trace_data :: "Span list option"

section \<open>Sessions and trials (models/session.py)\<close>

datatype SessionStatus = PENDING | RUNNING | STOPPING | COMPLETED | FAILED

record Trial =
  trial_id :: int
  fault_plan :: pydict
  trial_observation :: "observation option"
  severity_score :: "real option"
  trial_timestamp :: timestamp
  trial_status :: string

record BestResult =
  best_fault_plan :: pydict
  best_severity_score :: real
  best_trial_id :: int
  best_timestamp :: timestamp

record OptimizationSession =
  session_id :: string
  service_name :: string
  status :: SessionStatus
  search_space_config :: pydict
  max_trials :: int
  trials :: "Trial list"
  best_result :: "BestResult option"
  created_at :: timestamp
  updated_at :: timestamp
  started_at :: "timestamp option"
  completed_at :: "timestamp option"

text \<open>The field constraints pydantic checks when a \<open>Trial\<close> is constructed.\<close>

definition Trial_valid :: "Trial \<Rightarrow> bool" where
  "Trial_valid t \<longleftrightarrow>
     0 \<le> trial_id t \<and>
     (case severity_score t of None \<Rightarrow> True | Some v \<Rightarrow> 0 \<le> v \<and> v \<le> 10)"

definition trials_completed :: "OptimizationSession \<Rightarrow> nat" where
  "trials_completed s = length (trials s)"

definition best_score :: "OptimizationSession \<Rightarrow> real" where
  "best_score s = (case best_result s of None \<Rightarrow> 0 | Some b \<Rightarrow> best_severity_score b)"

text \<open>
  \<open>add_trial\<close> appends, stamps \<open>updated_at\<close> and replaces the best result when the
  trial carries a score and there is no best yet or the score is strictly larger. The two
  clock readings are the two calls of \<open>datetime.utcnow\<close>.
\<close>

definition add_trial :: "timestamp \<Rightarrow> timestamp \<Rightarrow> Trial \<Rightarrow> OptimizationSession \<Rightarrow> OptimizationSession" where
  "add_trial now now' t s =
     (let s1 = s\<lparr>trials := trials s @ [t], updated_at := now\<rparr>
      in case severity_score t of
           None \<Rightarrow> s1
         | Some v \<Rightarrow>
             (if best_result s1 = None \<or> v > best_severity_score (the (best_result s1))
              then s1\<lparr>best_result := Some \<lparr>best_fault_plan = fault_plan t,
                                            best_severity_score = v,
                                            best_trial_id = trial_id t,
                                            best_timestamp = now'\<rparr>\<rparr>
              else s1))"

definition is_complete :: "OptimizationSession \<Rightarrow> bool" where
  "is_complete s \<longleftrightarrow> status s \<in> {COMPLETED, FAILED}"

definition transition_to_running :: "timestamp \<Rightarrow> OptimizationSession \<Rightarrow> py_error + OptimizationSession" where
  "transition_to_running now s =
     (if status s \<noteq> PENDING then Inl (ValueError ''Cannot transition to RUNNING'')
      else Inr (s\<lparr>status := RUNNING, started_at := Some now, updated_at := now\<rparr>))"

definition transition_to_stopping :: "timestamp \<Rightarrow> OptimizationSession \<Rightarrow> py_error + OptimizationSession" where
  "transition_to_stopping now s =
     (if status s \<noteq> RUNNING then Inl (ValueError ''Cannot transition to STOPPING'')
      else Inr (s\<lparr>status := STOPPING, updated_at := now\<rparr>))"

definition transition_to_completed :: "timestamp \<Rightarrow> OptimizationSession \<Rightarrow> py_error + OptimizationSession" where
  "transition_to_completed now s =
     (if status s \<notin> {RUNNING, STOPPING} then Inl (ValueError ''Cannot transition to COMPLETED'')
      else Inr (s\<lparr>status := COMPLETED, completed_at := Some now, updated_at := now\<rparr>))"

definition transition_to_failed :: "timestamp \<Rightarrow> OptimizationSession \<Rightarrow> OptimizationSession" where
  "transition_to_failed now s = s\<lparr>status := FAILED, completed_at := Some now, updated_at := now\<rparr>"

section \<open>The packaged analyzer (boifi\_recommender/analyzer/service.py)\<close>

text \<open>
  The scorers read the observation dictionary with \<open>get\<close>; a missing key and a null
  value are both \<open>None\<close> here. \<open>if status_code and ...\<close> is Python truthiness: a
  status of 0 counts as absent, and so does an error rate of 0. A span without a status
  key counts as \<open>ok\<close>; a status that is neither \<open>ok\<close> nor \<open>unset\<close>, a null
  included, makes an error span.
\<close>

definition boifi_BugScorer_score :: "observation \<Rightarrow> real" where
  "boifi_BugScorer_score obs =
     (if (case status_code obs of None \<Rightarrow> False | Some c \<Rightarrow> c \<noteq> 0 \<and> 500 \<le> c \<and> c < 600) then 10
      else if (case status_code obs of None \<Rightarrow> False | Some c \<Rightarrow> c \<noteq> 0 \<and> 400 \<le> c \<and> c < 500) then 8
      else if error_logs obs \<noteq> [] \<and> length (error_logs obs) > 0 then 6
      else if (case error_rate obs of None \<Rightarrow> False | Some e \<Rightarrow> e \<noteq> 0 \<and> e > 0) then 3
      else 0)"

record boifi_PerformanceScorer =
  baseline_ms :: real
  threshold_ms :: real

definition boifi_PerformanceScorer_score :: "boifi_PerformanceScorer \<Rightarrow> observation \<Rightarrow> real" where
  "boifi_PerformanceScorer_score p obs =
     (case latency_ms obs of
        None \<Rightarrow> 0
      | Some l \<Rightarrow>
          if l \<le> baseline_ms p then 0
          else if l \<ge> threshold_ms p then 9
          else min 10 ((l - baseline_ms p) / (threshold_ms p - baseline_ms p) * 9))"

definition boifi_StructureScorer_score :: "observation \<Rightarrow> real" where
  "boifi_StructureScorer_score obs =
     (case trace_data obs of
        None \<Rightarrow> 0
      | Some spans \<Rightarrow>
          let span_count = length spans;
              span_score = (if span_count \<le> 2 then 0 else if span_count \<le> 5 then 3 else 6);
              error_spans = filter (\<lambda>s. (case span_status s of None \<Rightarrow> PyStr ''ok'' | Some st \<Rightarrow> st)
                                          \<notin> set [PyStr ''ok'', PyStr ''unset'']) spans;
              error_score = (if length error_spans > 0 then 2 else 0);
              edit_distance_score = min 5 (real span_count * 0.5)
          in max span_score (max error_score edit_distance_score))"

record boifi_AnalyzerService =
  perf_scorer :: boifi_PerformanceScorer
  bug_weight :: real
  perf_weight :: real
  struct_weight :: real

text \<open>
  The constructor normalises the weights by their sum with Python's \<open>/\<close>, which
  raises \<open>ZeroDivisionError\<close> on a zero divisor.
\<close>

definition boifi_AnalyzerService_init :: "real \<Rightarrow> real \<Rightarrow> real \<Rightarrow> real \<Rightarrow> real \<Rightarrow> py_error + boifi_AnalyzerService" where
  "boifi_AnalyzerService_init baseline threshold w_bug w_perf w_struct =
     (let total_weight = w_bug + w_perf + w_struct
      in if total_weight = 0 then Inl ZeroDivisionError
         else Inr \<lparr>perf_scorer = \<lparr>baseline_ms = baseline, threshold_ms = threshold\<rparr>,
                   bug_weight = w_bug / total_weight,
                   perf_weight = w_perf / total_weight,
                   struct_weight = w_struct / total_weight\<rparr>)"

record severity_result =
  total_score :: real
  bug_score :: real
  perf_score :: real
  struct_score :: real

definition boifi_calculate_severity :: "boifi_AnalyzerService \<Rightarrow> observation \<Rightarrow> severity_result" where
  "boifi_calculate_severity a obs =
     (let b = boifi_BugScorer_score obs;
          p = boifi_PerformanceScorer_score (perf_scorer a) obs;
          st = boifi_StructureScorer_score obs;
          total = bug_weight a * b + perf_weight a * p + struct_weight a * st
      in \<lparr>total_score = max 0 (min 10 total), bug_score = b, perf_score = p, struct_score = st\<rparr>)"

text \<open>Constructing the service and scoring one observation with it.\<close>

definition boifi_severity :: "real \<Rightarrow> real \<Rightarrow> real \<Rightarrow> real \<Rightarrow> real \<Rightarrow> observation \<Rightarrow> py_error + severity_result" where
  "boifi_severity baseline threshold w_bug w_perf w_struct obs =
     (case boifi_AnalyzerService_init baseline threshold w_bug w_perf w_struct of
        Inl e \<Rightarrow> Inl e
      | Inr a \<Rightarrow> Inr (boifi_calculate_severity a obs))"

section \<open>The configuration-driven analyzer (analyzer/service.py with types.py)\<close>

text \<open>
  \<open>RawObservation\<close> checks only \<open>error_rate\<close> on construction, so a status code or a
  latency of \<open>None\<close> reaches the scorers; comparing it raises \<open>TypeError\<close>, which each
  scorer catches and turns into 0.0. An empty trace dictionary is falsy and is \<open>None\<close>
  here; spans carry an operation name and a duration.
\<close>

record RawObservation =
  raw_status_code :: "int option"
  raw_latency_ms :: "real option"
  raw_error_rate :: real
  success_count :: int
  error_count :: int
  raw_trace_data :: "Span list option"
  logs :: "string list"

definition RawObservation_valid :: "RawObservation \<Rightarrow> bool" where
  "RawObservation_valid obs \<longleftrightarrow> 0 \<le> raw_error_rate obs \<and> raw_error_rate obs \<le> 1"

datatype FaultType = DELAY | ABORT | ERROR_INJECTION

record AnalyzerConfig =
  weights :: "string \<rightharpoonup> real"
  baseline_latency_ms :: real
  threshold_latency_ms :: real
  baseline_trace :: "Span list option"
  fault_type_configs :: "FaultType \<rightharpoonup> (string \<rightharpoonup> real) option"

definition get_weight :: "AnalyzerConfig \<Rightarrow> string \<Rightarrow> FaultType option \<Rightarrow> real" where
  "get_weight cfg dimension fault_type =
     (let global = (case weights cfg dimension of None \<Rightarrow> 1 | Some w \<Rightarrow> w)
      in case fault_type of
           None \<Rightarrow> global
         | Some ft \<Rightarrow>
             (case fault_type_configs cfg ft of
                Some (Some ws) \<Rightarrow> (case ws dimension of Some w \<Rightarrow> w | None \<Rightarrow> global)
              | _ \<Rightarrow> global))"

definition critical_keywords :: "string list" where
  "critical_keywords = [''ERROR'', ''FATAL'', ''CRITICAL'', ''PANIC'', ''EXCEPTION'']"

text \<open>Python's \<open>keyword in log\<close> on strings is the contiguous-substring test.\<close>

definition has_critical_log :: "string list \<Rightarrow> bool" where
  "has_critical_log ls = list_ex (\<lambda>log. list_ex (\<lambda>keyword. sublist keyword log) critical_keywords) ls"

definition BugScorer_score :: "RawObservation \<Rightarrow> AnalyzerConfig \<Rightarrow> real" where
  "BugScorer_score obs cfg =
     (case raw_status_code obs of
        None \<Rightarrow> 0
      | Some c \<Rightarrow>
          if c \<ge> 500 then 10
          else if c \<ge> 400 then 8
          else if logs obs \<noteq> [] \<and> has_critical_log (logs obs) then 6
          else if raw_error_rate obs > 0 then 3
          else 0)"

definition PerformanceScorer_score :: "RawObservation \<Rightarrow> AnalyzerConfig \<Rightarrow> real" where
  "PerformanceScorer_score obs cfg =
     (let baseline = baseline_latency_ms cfg; threshold = threshold_latency_ms cfg
      in if baseline \<le> 0 then 0
         else case raw_latency_ms obs of
                None \<Rightarrow> 0
              | Some actual \<Rightarrow>
                  if actual > threshold then 10
                  else let score = (if threshold > baseline
                                    then (actual - baseline) / (threshold - baseline) * 9
                                    else 0)
                       in min 10 (max 0 score))"

text \<open>
  \<open>_edit_distance\<close> fills its table row by row: \<open>edit_row\<close> computes the cells of one
  row from the row above (\<open>d\<close> diagonal, \<open>u\<close> above, \<open>l\<close> left).
\<close>

fun edit_row :: "'a \<Rightarrow> 'a list \<Rightarrow> nat list \<Rightarrow> nat \<Rightarrow> nat list" where
  "edit_row x (y # ys) (d # u # us) l =
     (let v = (if x = y then d else 1 + min u (min l d)) in v # edit_row x ys (u # us) v)"
| "edit_row x ys us l = []"

definition edit_step :: "'a list \<Rightarrow> nat list \<Rightarrow> 'a \<Rightarrow> nat list" where
  "edit_step list2 prev x =
     (case prev of [] \<Rightarrow> [] | p # ps \<Rightarrow> Suc p # edit_row x list2 prev (Suc p))"

definition edit_distance :: "'a list \<Rightarrow> 'a list \<Rightarrow> nat" where
  "edit_distance list1 list2 = last (foldl (edit_step list2) [0..<Suc (length list2)] list1)"

definition check_span_count_change :: "Span list \<Rightarrow> Span list \<Rightarrow> real" where
  "check_span_count_change current_trace baseline_tr =
     (let baseline_spans = length baseline_tr; current_spans = length current_trace
      in if baseline_spans = 0 then 0
         else if real current_spans > real baseline_spans * 1.5 then 3
         else 0)"

definition check_operation_sequence_change :: "Span list \<Rightarrow> Span list \<Rightarrow> real" where
  "check_operation_sequence_change current_trace baseline_tr =
     (let baseline_ops = map operationName baseline_tr;
          current_ops = map operationName current_trace
      in if baseline_ops = [] \<or> current_ops = [] then 0
         else if edit_distance baseline_ops current_ops > 2 then 5
         else 0)"

definition check_error_spans :: "Span list \<Rightarrow> real" where
  "check_error_spans current_trace =
     (if list_ex (\<lambda>span. span_error span \<or> span_error_tag span = Some ''true'') current_trace
      then 2 else 0)"

text \<open>A dictionary comprehension keeps the last duration given for an operation name.\<close>

definition span_durations :: "Span list \<Rightarrow> string \<rightharpoonup> int" where
  "span_durations spans = map_of (rev (map (\<lambda>s. (operationName s, duration s)) spans))"

definition check_span_latency_spike :: "Span list \<Rightarrow> Span list \<Rightarrow> real" where
  "check_span_latency_spike current_trace baseline_tr =
     (let baseline_spans = span_durations baseline_tr;
          current_spans = span_durations current_trace
      in if list_ex (\<lambda>s. case (current_spans (operationName s), baseline_spans (operationName s)) of
                            (Some current_duration, Some baseline_duration) \<Rightarrow>
                               baseline_duration > 0 \<and>
                               real_of_int current_duration / real_of_int baseline_duration > 5
                          | _ \<Rightarrow> False) current_trace
         then 2 else 0)"

definition StructureScorer_score :: "RawObservation \<Rightarrow> AnalyzerConfig \<Rightarrow> real" where
  "StructureScorer_score obs cfg =
     (case baseline_trace cfg of
        None \<Rightarrow> 0
      | Some base \<Rightarrow>
          (case raw_trace_data obs of
             None \<Rightarrow> 0
           | Some cur \<Rightarrow>
               let scores = filter (\<lambda>x. x > 0)
                              [check_span_count_change cur base,
                               check_operation_sequence_change cur base,
                               check_error_spans cur,
                               check_span_latency_spike cur base];
                   final_score = (case scores of [] \<Rightarrow> 0 | x # xs \<Rightarrow> fold max xs x)
               in min 10 final_score))"

record ScoringBreakdown =
  breakdown_bug_score :: real
  breakdown_perf_score :: real
  breakdown_struct_score :: real
  breakdown_total_score :: real
  breakdown_weights :: "real \<times> real \<times> real"

definition calculate_severity :: "AnalyzerConfig \<Rightarrow> RawObservation option \<Rightarrow> py_error + (real \<times> ScoringBreakdown option)" where
  "calculate_severity cfg observation =
     (case observation of
        None \<Rightarrow> Inl (ValueError ''observation is None'')
      | Some obs \<Rightarrow>
          let score_bug = BugScorer_score obs cfg;
              score_perf = PerformanceScorer_score obs cfg;
              score_struct = StructureScorer_score obs cfg;
              w_bug = get_weight cfg ''bug'' None;
              w_perf = get_weight cfg ''perf'' None;
              w_struct = get_weight cfg ''struct'' None;
              total_weight = w_bug + w_perf + w_struct
          in if total_weight = 0 then Inr (0, None)
             else let total = min 10 (max 0 ((w_bug * score_bug + w_perf * score_perf
                                               + w_struct * score_struct) / total_weight))
                  in Inr (total, Some \<lparr>breakdown_bug_score = score_bug,
                                       breakdown_perf_score = score_perf,
                                       breakdown_struct_score = score_struct,
                                       breakdown_total_score = total,
                                       breakdown_weights = (w_bug, w_perf, w_struct)\<rparr>))"

section \<open>The circuit breaker (clients/executor\_client.py)\<close>

datatype CircuitBreakerState = CLOSED | OPEN | HALF_OPEN

record CircuitBreaker =
  failure_threshold :: int
  recovery_timeout :: int
  state :: CircuitBreakerState
  failure_count :: int
  last_failure_time :: "real option"

definition CircuitBreaker_init :: "int \<Rightarrow> int \<Rightarrow> CircuitBreaker" where
  "CircuitBreaker_init threshold timeout =
     \<lparr>failure_threshold = threshold, recovery_timeout = timeout, state = CLOSED,
      failure_count = 0, last_failure_time = None\<rparr>"

text \<open>
  \<open>can_attempt\<close> reads the clock (\<open>now\<close>) and may move the breaker to \<open>HALF_OPEN\<close>;
  it returns the answer and the breaker. \<open>self.last_failure_time and ...\<close> is
  truthiness: no reading yet, or a reading of 0.0, never recovers.
\<close>

definition can_attempt :: "real \<Rightarrow> CircuitBreaker \<Rightarrow> bool \<times> CircuitBreaker" where
  "can_attempt now cb =
     (if state cb = CLOSED then (True, cb)
      else if state cb = OPEN then
        (if (case last_failure_time cb of
               None \<Rightarrow> False
             | Some t \<Rightarrow> t \<noteq> 0 \<and> now - t > real_of_int (recovery_timeout cb))
         then (True, cb\<lparr>state := HALF_OPEN\<rparr>)
         else (False, cb))
      else (True, cb))"

definition record_success :: "CircuitBreaker \<Rightarrow> CircuitBreaker" where
  "record_success cb =
     (if state cb = HALF_OPEN then cb\<lparr>state := CLOSED, failure_count := 0\<rparr>
      else if state cb = CLOSED then cb\<lparr>failure_count := 0\<rparr>
      else cb)"

definition record_failure :: "real \<Rightarrow> CircuitBreaker \<Rightarrow> CircuitBreaker" where
  "record_failure now cb =
     (let cb1 = cb\<lparr>failure_count := failure_count cb + 1, last_failure_time := Some now\<rparr>
      in if failure_count cb1 \<ge> failure_threshold cb1 then cb1\<lparr>state := OPEN\<rparr> else cb1)"

text \<open>Recording a list of failures, each with the clock reading at which it is recorded.\<close>

fun record_failures :: "real list \<Rightarrow> CircuitBreaker \<Rightarrow> CircuitBreaker" where
  "record_failures [] cb = cb"
| "record_failures (t # ts) cb = record_failures ts (record_failure t cb)"

text \<open>
  The breakers a client can hold: a fresh one, changed by any sequence of the three
  methods at any clock readings.
\<close>

inductive reachable_breaker :: "CircuitBreaker \<Rightarrow> bool" where
  fresh: "reachable_breaker (CircuitBreaker_init threshold timeout)"
| after_can_attempt: "reachable_breaker cb \<Longrightarrow> reachable_breaker (snd (can_attempt now cb))"
| after_success: "reachable_breaker cb \<Longrightarrow> reachable_breaker (record_success cb)"
| after_failure: "reachable_breaker cb \<Longrightarrow> reachable_breaker (record_failure now cb)"

section \<open>The executor client (clients/executor\_client.py)\<close>

text \<open>
  What one attempt meets is given by the environment: the outcome of the POST, the clock
  reading taken if the attempt records a failure, and the draw \<open>r\<close> in [0, 1) behind
  \<open>random.uniform(a, b) = a + (b - a) * r\<close>. The body of a 200 response is what
  \<open>response.json()\<close> makes of it: an observation, JSON \<open>null\<close> (Python \<open>None\<close>), or
  a decoding error. A body of another JSON shape (an array, a number, a string) is returned
  as it is, like an observation, and has no case of its own here.
\<close>

datatype json_body = JsonObject observation | JsonNull | JsonInvalid

datatype http_result = Response int json_body | TimeoutException | ConnectError | OtherException

record attempt_env =
  http :: http_result
  failure_clock :: real
  jitter_draw :: real

record ExecutorClient =
  executor_url :: string
  timeout :: real
  max_retries :: int
  base_delay :: real
  max_delay :: real
  jitter_percent :: real
  circuit_breaker :: CircuitBreaker

definition ExecutorClient_init :: "string \<Rightarrow> real \<Rightarrow> int \<Rightarrow> real \<Rightarrow> real \<Rightarrow> real \<Rightarrow> ExecutorClient" where
  "ExecutorClient_init url tmo retries base_d max_d jitter =
     \<lparr>executor_url = url, timeout = tmo, max_retries = retries, base_delay = base_d,
      max_delay = max_d, jitter_percent = jitter, circuit_breaker = CircuitBreaker_init 5 60\<rparr>"

text \<open>The time slept by \<open>_delay_with_backoff\<close>.\<close>

definition delay_with_backoff :: "ExecutorClient \<Rightarrow> nat \<Rightarrow> real \<Rightarrow> real" where
  "delay_with_backoff c attempt r =
     (let delay = min (max_delay c) (base_delay c * 2 ^ attempt);
          jitter = delay * (jitter_percent c / 100)
      in delay + (- jitter + (jitter - (- jitter)) * r))"

text \<open>
  The retry loop: \<open>n\<close> attempts remain, \<open>attempt\<close> is the loop variable. The result is
  the returned value, the breaker, and the sleeps performed so far.
\<close>

fun retry_loop :: "ExecutorClient \<Rightarrow> (nat \<Rightarrow> attempt_env) \<Rightarrow> nat \<Rightarrow> nat \<Rightarrow> CircuitBreaker \<Rightarrow> real list
                    \<Rightarrow> observation option \<times> CircuitBreaker \<times> real list" where
  "retry_loop c env 0 attempt cb sleeps = (None, cb, sleeps)"
| "retry_loop c env (Suc n) attempt cb sleeps =
     (case http (env attempt) of
        Response code body \<Rightarrow>
          if code = 200 then
            (case body of
               JsonObject obs \<Rightarrow> (Some obs, record_success cb, sleeps)
             | JsonNull \<Rightarrow> (None, record_success cb, sleeps)
             | JsonInvalid \<Rightarrow>
                 (None, record_failure (failure_clock (env attempt)) (record_success cb), sleeps))
          else if code \<ge> 500 then
            retry_loop c env n (Suc attempt) cb
              (sleeps @ [delay_with_backoff c attempt (jitter_draw (env attempt))])
          else (None, record_failure (failure_clock (env attempt)) cb, sleeps)
      | TimeoutException \<Rightarrow>
          retry_loop c env n (Suc attempt) (record_failure (failure_clock (env attempt)) cb)
            (sleeps @ [delay_with_backoff c attempt (jitter_draw (env attempt))])
      | ConnectError \<Rightarrow>
          retry_loop c env n (Suc attempt) (record_failure (failure_clock (env attempt)) cb)
            (sleeps @ [delay_with_backoff c attempt (jitter_draw (env attempt))])
      | OtherException \<Rightarrow> (None, record_failure (failure_clock (env attempt)) cb, sleeps))"

definition apply_policy :: "real \<Rightarrow> (nat \<Rightarrow> attempt_env) \<Rightarrow> ExecutorClient
                             \<Rightarrow> observation option \<times> ExecutorClient \<times> real list" where
  "apply_policy now env c =
     (case can_attempt now (circuit_breaker c) of
        (False, cb1) \<Rightarrow> (None, c\<lparr>circuit_breaker := cb1\<rparr>, [])
      | (True, cb1) \<Rightarrow>
          (case retry_loop c env (nat (max_retries c)) 0 cb1 [] of
             (r, cb2, sleeps) \<Rightarrow> (r, c\<lparr>circuit_breaker := cb2\<rparr>, sleeps)))"

text \<open>The attempts whose outcome makes the loop go on: a 5xx response, a timeout, a connect error.\<close>

fun retried :: "http_result \<Rightarrow> bool" where
  "retried (Response code body) = (code \<noteq> 200 \<and> code \<ge> 500)"
| "retried TimeoutException = True"
| "retried ConnectError = True"
| "retried OtherException = False"

text \<open>The attempts that end the call with \<open>None\<close> at once.\<close>

fun gives_up :: "http_result \<Rightarrow> bool" where
  "gives_up (Response code body) =
     (if code = 200 then (case body of JsonObject obs \<Rightarrow> False | _ \<Rightarrow> True) else code < 500)"
| "gives_up TimeoutException = False"
| "gives_up ConnectError = False"
| "gives_up OtherException = True"

fun is_4xx :: "http_result \<Rightarrow> bool" where
  "is_4xx (Response code body) = (400 \<le> code \<and> code < 500)"
| "is_4xx other = False"

section \<open>The session manager (services/session\_manager.py)\<close>

text \<open>
  The manager's dictionary is the store of session objects: the worker and the manager
  hold the same object under its id.
\<close>

type_synonym sessions = "string \<rightharpoonup> OptimizationSession"

definition get_session :: "string \<Rightarrow> sessions \<Rightarrow> OptimizationSession option" where
  "get_session sid m = m sid"

definition update_session :: "OptimizationSession \<Rightarrow> sessions \<Rightarrow> sessions" where
  "update_session s m = m(session_id s \<mapsto> s)"

definition stop_session :: "timestamp \<Rightarrow> timestamp \<Rightarrow> string \<Rightarrow> sessions
                             \<Rightarrow> py_error + (OptimizationSession option \<times> sessions)" where
  "stop_session now now' sid m =
     (case m sid of
        None \<Rightarrow> Inr (None, m)
      | Some s \<Rightarrow>
          if status s = RUNNING then
            (case transition_to_stopping now s of
               Inl e \<Rightarrow> Inl e
             | Inr s1 \<Rightarrow>
                 (case transition_to_completed now' s1 of
                    Inl e \<Rightarrow> Inl e
                  | Inr s2 \<Rightarrow> Inr (Some s2, m(sid \<mapsto> s2))))
          else Inr (Some s, m))"

section \<open>The optimization worker (coordinator/worker.py)\<close>

text \<open>
  What one iteration meets: whether \<open>self.stop_flag\<close> is set when the iteration checks
  it, what \<open>optimizer.propose()\<close> and \<open>executor_client.apply_policy\<close> return, whether
  \<open>optimizer.record\<close> raises, and the clock.
\<close>

record iteration_env =
  stop_flag_set :: bool
  proposed :: "py_error + pydict"
  applied :: "observation option"
  record_raises :: "py_error option"
  clock :: timestamp

definition make_trial :: "nat \<Rightarrow> pydict \<Rightarrow> observation \<Rightarrow> real \<Rightarrow> timestamp \<Rightarrow> Trial" where
  "make_trial i plan obs score now =
     \<lparr>trial_id = int i, fault_plan = plan, trial_observation = Some obs,
      severity_score = Some score, trial_timestamp = now, trial_status = ''completed''\<rparr>"

text \<open>
  The main loop: \<open>n\<close> iterations remain and \<open>i\<close> is the loop variable \<open>trial_id\<close>. It
  returns the exception that escaped, if any, and the session as it then is.
\<close>

fun worker_loop :: "boifi_AnalyzerService \<Rightarrow> (nat \<Rightarrow> iteration_env) \<Rightarrow> nat \<Rightarrow> nat \<Rightarrow> OptimizationSession
                     \<Rightarrow> py_error option \<times> OptimizationSession" where
  "worker_loop an env 0 i s = (None, s)"
| "worker_loop an env (Suc n) i s =
     (if stop_flag_set (env i) then (None, s)
      else case proposed (env i) of
             Inl err \<Rightarrow> (Some err, s)
           | Inr plan \<Rightarrow>
               (case applied (env i) of
                  None \<Rightarrow> worker_loop an env n (Suc i) s
                | Some obs \<Rightarrow>
                    (let score = total_score (boifi_calculate_severity an obs);
                         s1 = add_trial (clock (env i)) (clock (env i))
                                (make_trial i plan obs score (clock (env i))) s
                     in (case record_raises (env i) of
                           Some err \<Rightarrow> (Some err, s1)
                         | None \<Rightarrow> worker_loop an env n (Suc i) s1))))"

definition run_session :: "boifi_AnalyzerService \<Rightarrow> (nat \<Rightarrow> iteration_env) \<Rightarrow> timestamp \<Rightarrow> timestamp
                            \<Rightarrow> OptimizationSession \<Rightarrow> OptimizationSession" where
  "run_session an env t0 t1 s =
     (case transition_to_running t0 s of
        Inl e \<Rightarrow> transition_to_failed t1 s
      | Inr s1 \<Rightarrow>
          (case worker_loop an env (nat (max_trials s1)) 0 s1 of
             (Some e, s2) \<Rightarrow> transition_to_failed t1 s2
           | (None, s2) \<Rightarrow>
               (case transition_to_completed t1 s2 of
                  Inl e \<Rightarrow> transition_to_failed t1 s2
                | Inr s3 \<Rightarrow> s3)))"

record OptimizationWorker =
  worker_session_id :: string
  stop_flag :: bool

definition worker_stop :: "OptimizationWorker \<Rightarrow> OptimizationWorker" where
  "worker_stop w = w\<lparr>stop_flag := True\<rparr>"

definition run :: "boifi_AnalyzerService \<Rightarrow> (nat \<Rightarrow> iteration_env) \<Rightarrow> timestamp \<Rightarrow> timestamp
                    \<Rightarrow> OptimizationWorker \<Rightarrow> sessions \<Rightarrow> sessions" where
  "run an env t0 t1 w m =
     (case get_session (worker_session_id w) m of
        None \<Rightarrow> m
      | Some s \<Rightarrow> update_session (run_session an env t0 t1 s) m)"

section \<open>The optimizer core (optimizer/core.py, config.py)\<close>

definition OPTIMIZER_INITIAL_POINTS :: int where
  "OPTIMIZER_INITIAL_POINTS = 5"

record dim_config =
  dim_name :: string
  dim_type :: string
  dim_values :: "pyval list"
  dim_bounds :: "real list"

datatype Dimension = Categorical "pyval list" string | Integer real real string | Real real real string

datatype opt_error = IndexError | ImportError | AttributeError | LibraryError string

text \<open>
  The optimizer calls scikit-optimize, numpy, scikit-learn and scipy. What these return is
  given by the environment:
  \<^item> \<open>skopt_cartesian_product\<close>: the function \<open>from skopt.utils import cartesian_product\<close>
    binds, or \<open>None\<close> when that name cannot be imported;
  \<^item> \<open>np_uniform k low high j\<close>: entry \<open>j\<close> of the array the \<open>k\<close>-th sampling call
    after \<open>np.random.seed(42)\<close> returns when it is \<open>np.random.uniform(low, high, size)\<close>;
  \<^item> \<open>np_choice k n j\<close>: the index, reduced below \<open>n\<close>, that the \<open>k\<close>-th sampling call
    picks for entry \<open>j\<close> when it is \<open>np.random.choice\<close> over \<open>n\<close> categories;
  \<^item> \<open>forest_fit X y\<close>: the exception \<open>RandomForestRegressor.fit\<close> raises, if any;
  \<^item> \<open>forest_predict X y rows\<close>: the predictions of each tree of the forest fitted to
    \<open>X, y\<close> for the given rows, or the exception raised;
  \<^item> \<open>norm_cdf\<close>, \<open>norm_pdf\<close>: \<open>scipy.stats.norm.cdf\<close> and \<open>pdf\<close>.
\<close>

record libraries =
  skopt_cartesian_product :: "(pyval list list \<Rightarrow> pyval list list) option"
  np_uniform :: "nat \<Rightarrow> real \<Rightarrow> real \<Rightarrow> nat \<Rightarrow> real"
  np_choice :: "nat \<Rightarrow> nat \<Rightarrow> nat \<Rightarrow> nat"
  forest_fit :: "pyval list list \<Rightarrow> real list \<Rightarrow> opt_error option"
  forest_predict :: "pyval list list \<Rightarrow> real list \<Rightarrow> pyval list list \<Rightarrow> opt_error + real list list"
  norm_cdf :: "real \<Rightarrow> real"
  norm_pdf :: "real \<Rightarrow> real"

text \<open>
  \<open>SpaceConverter.convert\<close> skips a dimension of unknown type; \<open>bounds[0]\<close> and
  \<open>bounds[1]\<close> raise on a shorter list.
\<close>

fun convert :: "dim_config list \<Rightarrow> opt_error + Dimension list" where
  "convert [] = Inr []"
| "convert (d # ds) =
     (case (if dim_type d = ''categorical'' then Inr [Categorical (dim_values d) (dim_name d)]
            else if dim_type d = ''integer'' then
              (case dim_bounds d of
                 lo # hi # rest \<Rightarrow> Inr [Integer lo hi (dim_name d)]
               | _ \<Rightarrow> Inl IndexError)
            else if dim_type d = ''real'' then
              (case dim_bounds d of
                 lo # hi # rest \<Rightarrow> Inr [Real lo hi (dim_name d)]
               | _ \<Rightarrow> Inl IndexError)
            else Inr []) of
        Inl e \<Rightarrow> Inl e
      | Inr here \<Rightarrow> (case convert ds of Inl e \<Rightarrow> Inl e | Inr later \<Rightarrow> Inr (here @ later)))"

text \<open>\<open>point_to_dict\<close> stores \<open>point[i]\<close> under the name of the i-th configured dimension.\<close>

fun point_to_dict_from :: "dim_config list \<Rightarrow> pyval list \<Rightarrow> pydict \<Rightarrow> opt_error + pydict" where
  "point_to_dict_from [] point acc = Inr acc"
| "point_to_dict_from (d # ds) [] acc = Inl IndexError"
| "point_to_dict_from (d # ds) (v # vs) acc = point_to_dict_from ds vs (AList.update (dim_name d) v acc)"

definition point_to_dict :: "dim_config list \<Rightarrow> pyval list \<Rightarrow> opt_error + pydict" where
  "point_to_dict dimensions_config point = point_to_dict_from dimensions_config point []"

record ProxyModel =
  is_fitted :: bool
  fitted_X :: "pyval list list"
  fitted_y :: "real list"

definition ProxyModel_fit :: "libraries \<Rightarrow> pyval list list \<Rightarrow> real list \<Rightarrow> ProxyModel \<Rightarrow> opt_error + ProxyModel" where
  "ProxyModel_fit libs X y m =
     (if length X = 0 then Inr m
      else case forest_fit libs X y of
             Some e \<Rightarrow> Inl e
           | None \<Rightarrow> Inr \<lparr>is_fitted = True, fitted_X = X, fitted_y = y\<rparr>)"

text \<open>
  \<open>predict_with_uncertainty\<close>: zeros and ones, one per row, while the model is not
  fitted; otherwise the mean and the standard deviation, row by row, of the trees'
  predictions.
\<close>

definition predict_with_uncertainty :: "libraries \<Rightarrow> ProxyModel \<Rightarrow> pyval list list \<Rightarrow> opt_error + (real list \<times> real list)" where
  "predict_with_uncertainty libs m X =
     (if \<not> is_fitted m then Inr (replicate (length X) 0, replicate (length X) 1)
      else case forest_predict libs (fitted_X m) (fitted_y m) X of
             Inl e \<Rightarrow> Inl e
           | Inr predictions \<Rightarrow>
               let columns = transpose predictions;
                   mean = map (\<lambda>c. sum_list c / real (length c)) columns;
                   std = map (\<lambda>c. sqrt (sum_list (map (\<lambda>x. (x - sum_list c / real (length c))\<^sup>2) c)
                                          / real (length c))) columns
               in Inr (mean, std))"

definition expected_improvement :: "libraries \<Rightarrow> real list \<Rightarrow> real list \<Rightarrow> real \<Rightarrow> real \<Rightarrow> real list" where
  "expected_improvement libs predictions uncertainties best xi =
     map (\<lambda>(p, u).
            let improvement = p - best - xi;
                Z = improvement / (u + 1 / 10 ^ 9);
                ei = improvement * norm_cdf libs Z + u * norm_pdf libs Z
            in if u = 0 then 0 else ei)
         (zip predictions uncertainties)"

text \<open>\<open>np.argmax\<close>: the first index that holds the largest value.\<close>

fun argmax_from :: "real list \<Rightarrow> nat \<Rightarrow> nat \<Rightarrow> real \<Rightarrow> nat" where
  "argmax_from [] i best_i best_v = best_i"
| "argmax_from (x # xs) i best_i best_v =
     (if x > best_v then argmax_from xs (Suc i) i x else argmax_from xs (Suc i) best_i best_v)"

definition argmax :: "real list \<Rightarrow> nat" where
  "argmax xs = (case xs of [] \<Rightarrow> 0 | x # rest \<Rightarrow> argmax_from rest 1 0 x)"

definition n_candidates :: nat where
  "n_candidates = 1000"

text \<open>
  The candidates of the random-sampling branch: one array of \<open>n\<close> draws per dimension,
  the \<open>k\<close>-th sampling call for the \<open>k\<close>-th dimension.
\<close>

fun sample_candidates :: "libraries \<Rightarrow> Dimension list \<Rightarrow> nat \<Rightarrow> nat \<Rightarrow> opt_error + pyval list list" where
  "sample_candidates libs [] k n = Inr []"
| "sample_candidates libs (d # dims) k n =
     (case (case d of
              Categorical categories name \<Rightarrow>
                (if categories = [] then Inl (LibraryError ''ValueError'')
                 else Inr (map (\<lambda>j. categories ! (np_choice libs k (length categories) j
                                                     mod length categories)) [0..<n]))
            | Integer low high name \<Rightarrow> Inr (map (\<lambda>j. PyFloat (np_uniform libs k low high j)) [0..<n])
            | Real low high name \<Rightarrow> Inr (map (\<lambda>j. PyFloat (np_uniform libs k low high j)) [0..<n])) of
        Inl e \<Rightarrow> Inl e
      | Inr column \<Rightarrow>
          (case sample_candidates libs dims (Suc k) n of
             Inl e \<Rightarrow> Inl e
           | Inr columns \<Rightarrow> Inr (column # columns)))"

fun dim_name_of :: "Dimension \<Rightarrow> string" where
  "dim_name_of (Categorical categories name) = name"
| "dim_name_of (Integer low high name) = name"
| "dim_name_of (Real low high name) = name"

fun categories_of :: "Dimension \<Rightarrow> pyval list option" where
  "categories_of (Categorical categories name) = Some categories"
| "categories_of (Integer low high name) = None"
| "categories_of (Real low high name) = None"

definition ends_with_zero :: "string \<Rightarrow> bool" where
  "ends_with_zero name \<longleftrightarrow> name \<noteq> [] \<and> last name = CHR ''0''"

text \<open>
  \<open>PointSelector.select_next_point\<close>. Its first statement is the import from
  \<open>skopt.utils\<close>. The candidates are one array per dimension (or the product of the
  categories when a categorical dimension's name ends in 0), the scores are one per
  array, and what is returned is the array with the best score.
\<close>

definition select_next_point :: "libraries \<Rightarrow> Dimension list \<Rightarrow> ProxyModel \<Rightarrow> real \<Rightarrow> nat
                                   \<Rightarrow> opt_error + pyval list option" where
  "select_next_point libs space_dimensions surrogate best n =
     (case skopt_cartesian_product libs of
        None \<Rightarrow> Inl ImportError
      | Some cartesian_product \<Rightarrow>
          (case (if filter (\<lambda>d. ends_with_zero (dim_name_of d) \<and> categories_of d \<noteq> None)
                      space_dimensions = []
                 then sample_candidates libs space_dimensions 0 n
                 else if list_all (\<lambda>d. categories_of d \<noteq> None) space_dimensions
                      then Inr (cartesian_product (map (\<lambda>d. the (categories_of d)) space_dimensions))
                      else Inl AttributeError) of
             Inl e \<Rightarrow> Inl e
           | Inr candidates \<Rightarrow>
               if length candidates = 0 then Inr None
               else (case predict_with_uncertainty libs surrogate candidates of
                       Inl e \<Rightarrow> Inl e
                     | Inr (predictions, uncertainties) \<Rightarrow>
                         (let ei_scores = expected_improvement libs predictions uncertainties best (1 / 100);
                              best_idx = argmax ei_scores
                          in if best_idx < length candidates
                             then Inr (Some (candidates ! best_idx))
                             else Inl IndexError))))"

record OptimizerCore =
  dimensions_config :: "dim_config list"
  dimensions :: "Dimension list"
  surrogate_model :: ProxyModel
  observation_history_X :: "pyval list list"
  observation_history_y :: "real list"
  best_value :: real
  best_point :: "pydict option"

definition OptimizerCore_init :: "dim_config list \<Rightarrow> opt_error + OptimizerCore" where
  "OptimizerCore_init cfg =
     (case convert cfg of
        Inl e \<Rightarrow> Inl e
      | Inr dims \<Rightarrow>
          Inr \<lparr>dimensions_config = cfg, dimensions = dims,
               surrogate_model = \<lparr>is_fitted = False, fitted_X = [], fitted_y = []\<rparr>,
               observation_history_X = [], observation_history_y = [],
               best_value = 0, best_point = None\<rparr>)"

text \<open>
  The \<open>random\<close> module is a source of draws: the k-th call takes \<open>unit_draws k\<close> for
  \<open>random.random()\<close> and \<open>index_draws k\<close>, reduced below the length, for the index
  \<open>random.choice\<close> picks. \<open>random_point\<close> is the loop of the cold-start branch, one
  draw per dimension; a numerical dimension, integer or real, gets
  \<open>low + random() * (high - low)\<close>.
\<close>

record rng =
  unit_draws :: "nat \<Rightarrow> real"
  index_draws :: "nat \<Rightarrow> nat"
  calls :: nat

fun random_point :: "Dimension list \<Rightarrow> rng \<Rightarrow> opt_error + (pyval list \<times> rng)" where
  "random_point [] g = Inr ([], g)"
| "random_point (d # dims) g =
     (case (case d of
              Categorical categories name \<Rightarrow>
                (if categories = [] then Inl IndexError
                 else Inr (categories ! (index_draws g (calls g) mod length categories)))
            | Integer low high name \<Rightarrow> Inr (PyFloat (low + unit_draws g (calls g) * (high - low)))
            | Real low high name \<Rightarrow> Inr (PyFloat (low + unit_draws g (calls g) * (high - low)))) of
        Inl e \<Rightarrow> Inl e
      | Inr v \<Rightarrow>
          (case random_point dims (g\<lparr>calls := Suc (calls g)\<rparr>) of
             Inl e \<Rightarrow> Inl e
           | Inr (vs, g') \<Rightarrow> Inr (v # vs, g')))"

definition propose :: "libraries \<Rightarrow> rng \<Rightarrow> OptimizerCore \<Rightarrow> opt_error + (pydict \<times> rng)" where
  "propose libs g core =
     (if length (observation_history_y core) = 0 then
        (case random_point (dimensions core) g of
           Inl e \<Rightarrow> Inl e
         | Inr (point, g') \<Rightarrow>
             (case point_to_dict (dimensions_config core) point of
                Inl e \<Rightarrow> Inl e
              | Inr plan \<Rightarrow> Inr (plan, g')))
      else
        (case select_next_point libs (dimensions core) (surrogate_model core) (best_value core)
                n_candidates of
           Inl e \<Rightarrow> Inl e
         | Inr None \<Rightarrow>
             (case random_point (dimensions core) g of
                Inl e \<Rightarrow> Inl e
              | Inr (point, g') \<Rightarrow>
                  (case point_to_dict (dimensions_config core) point of
                     Inl e \<Rightarrow> Inl e
                   | Inr plan \<Rightarrow> Inr (plan, g')))
         | Inr (Some next_point) \<Rightarrow>
             (case point_to_dict (dimensions_config core) next_point of
                Inl e \<Rightarrow> Inl e
              | Inr plan \<Rightarrow> Inr (plan, g))))"

definition plan_get :: "pydict \<Rightarrow> string \<Rightarrow> pyval" where
  "plan_get plan key = (case map_of plan key of None \<Rightarrow> PyNone | Some v \<Rightarrow> v)"

text \<open>
  \<open>record\<close> returns the exception \<open>fit\<close> raised, if any, and the optimizer as it then
  is: the history and the best value are updated before the model is refitted.
\<close>

definition record_result :: "libraries \<Rightarrow> pydict \<Rightarrow> real \<Rightarrow> OptimizerCore \<Rightarrow> opt_error option \<times> OptimizerCore" where
  "record_result libs plan score core =
     (let point = map (\<lambda>d. plan_get plan (dim_name d)) (dimensions_config core);
          core1 = core\<lparr>observation_history_X := observation_history_X core @ [point],
                       observation_history_y := observation_history_y core @ [score]\<rparr>;
          core2 = (if score > best_value core1
                   then core1\<lparr>best_value := score, best_point := Some plan\<rparr> else core1)
      in if length (observation_history_X core2) \<ge> 2
         then (case ProxyModel_fit libs (observation_history_X core2) (observation_history_y core2)
                      (surrogate_model core2) of
                 Inl e \<Rightarrow> (Some e, core2)
               | Inr m \<Rightarrow> (None, core2\<lparr>surrogate_model := m\<rparr>))
         else (None, core2))"

section \<open>Concrete values used to run the models\<close>

definition demo_session :: OptimizationSession where
  "demo_session =
     \<lparr>session_id = ''s-1'', service_name = ''payments'', status = PENDING,
      search_space_config = [], max_trials = 3, trials = [], best_result = None,
      created_at = 0, updated_at = 0, started_at = None, completed_at = None\<rparr>"

definition demo_observation :: observation where
  "demo_observation =
     \<lparr>status_code = Some 200, latency_ms = Some 300, error_rate = Some 0,
      error_logs = [], trace_data = None\<rparr>"

definition demo_raw_observation :: RawObservation where
  "demo_raw_observation =
     \<lparr>raw_status_code = Some 200, raw_latency_ms = Some 300, raw_error_rate = 0,
      success_count = 10, error_count = 0, raw_trace_data = None, logs = []\<rparr>"

definition demo_config :: AnalyzerConfig where
  "demo_config =
     \<lparr>weights = [''bug'' \<mapsto> 1, ''perf'' \<mapsto> 1, ''struct'' \<mapsto> 1],
      baseline_latency_ms = 100, threshold_latency_ms = 500,
      baseline_trace = None, fault_type_configs = Map.empty\<rparr>"

definition demo_analyzer :: boifi_AnalyzerService where
  "demo_analyzer =
     \<lparr>perf_scorer = \<lparr>baseline_ms = 100, threshold_ms = 500\<rparr>,
      bug_weight = 1 / 3, perf_weight = 1 / 3, struct_weight = 1 / 3\<rparr>"

definition tripped_breaker :: CircuitBreaker where
  "tripped_breaker = record_failures [1, 2, 3] (CircuitBreaker_init 3 60)"

definition demo_client :: ExecutorClient where
  "demo_client = ExecutorClient_init ''http://localhost:8001'' 30 5 (1 / 2) 8 10"

text \<open>An executor that answers every attempt with 503, one that answers 201, one that times out.\<close>

definition env_503 :: "nat \<Rightarrow> attempt_env" where
  "env_503 i = \<lparr>http = Response 503 JsonNull, failure_clock = real i, jitter_draw = 1 / 2\<rparr>"

definition env_201 :: "nat \<Rightarrow> attempt_env" where
  "env_201 i = \<lparr>http = Response 201 (JsonObject demo_observation), failure_clock = real i,
                 jitter_draw = 1 / 2\<rparr>"

definition env_404 :: "nat \<Rightarrow> attempt_env" where
  "env_404 i = \<lparr>http = Response 404 JsonNull, failure_clock = 7, jitter_draw = 1 / 2\<rparr>"

definition env_timeout :: "nat \<Rightarrow> attempt_env" where
  "env_timeout i = \<lparr>http = TimeoutException, failure_clock = real i, jitter_draw = 1 / 2\<rparr>"

definition env_ok :: "nat \<Rightarrow> attempt_env" where
  "env_ok i = \<lparr>http = (if i = 0 then Response 502 JsonNull else Response 200 (JsonObject demo_observation)),
               failure_clock = real i, jitter_draw = 1 / 2\<rparr>"

definition demo_running :: OptimizationSession where
  "demo_running = demo_session\<lparr>status := RUNNING, started_at := Some 1, updated_at := 1\<rparr>"

definition demo_stopped :: OptimizationSession where
  "demo_stopped = demo_running\<lparr>status := COMPLETED, completed_at := Some 2, updated_at := 2\<rparr>"

text \<open>Executors for the worker: one whose first call returns \<open>None\<close>, one that always answers.\<close>

definition env_fail_first :: "nat \<Rightarrow> iteration_env" where
  "env_fail_first i =
     \<lparr>stop_flag_set = False, proposed = Inr [(''delay_ms'', PyInt 500)],
      applied = (if i = 0 then None else Some demo_observation),
      record_raises = None, clock = real i\<rparr>"

definition env_all_ok :: "nat \<Rightarrow> iteration_env" where
  "env_all_ok i =
     \<lparr>stop_flag_set = False, proposed = Inr [(''delay_ms'', PyInt 500)],
      applied = Some demo_observation, record_raises = None, clock = real i\<rparr>"

text \<open>A two-dimensional search space, a selector that always returns the same point, a random source.\<close>

definition demo_dims :: "dim_config list" where
  "demo_dims =
     [\<lparr>dim_name = ''delay_ms'', dim_type = ''integer'', dim_values = [], dim_bounds = [100, 5000]\<rparr>,
      \<lparr>dim_name = ''kind'', dim_type = ''categorical'',
        dim_values = [PyStr ''delay'', PyStr ''abort''], dim_bounds = []\<rparr>]"

definition demo_core :: OptimizerCore where
  "demo_core =
     \<lparr>dimensions_config = demo_dims,
      dimensions = [Integer 100 5000 ''delay_ms'', Categorical [PyStr ''delay'', PyStr ''abort''] ''kind''],
      surrogate_model = \<lparr>is_fitted = False, fitted_X = [], fitted_y = []\<rparr>,
      observation_history_X = [], observation_history_y = [],
      best_value = 0, best_point = None\<rparr>"

definition demo_plan :: pydict where
  "demo_plan = [(''delay_ms'', PyFloat 300), (''kind'', PyStr ''delay'')]"

definition demo_core_1 :: OptimizerCore where
  "demo_core_1 =
     demo_core\<lparr>observation_history_X := [[PyFloat 300, PyStr ''delay'']],
               observation_history_y := [4], best_value := 4, best_point := Some demo_plan\<rparr>"

definition demo_rng :: rng where
  "demo_rng = \<lparr>unit_draws = (\<lambda>k. 1 / 2), index_draws = (\<lambda>k. 1), calls = 0\<rparr>"

definition tripped_client :: ExecutorClient where
  "tripped_client =
     demo_client\<lparr>circuit_breaker := record_failures [1, 2, 3, 4, 5] (circuit_breaker demo_client)\<rparr>"

definition env_timeout_late :: "nat \<Rightarrow> attempt_env" where
  "env_timeout_late i = \<lparr>http = TimeoutException, failure_clock = 100 + real i, jitter_draw = 1 / 2\<rparr>"

section \<open>Results about the session model\<close>

lemma add_trial_trials: "trials (add_trial now now' t s) = trials s @ [t]"
  by (simp add: add_trial_def Let_def split: option.splits)

lemma add_trial_status: "status (add_trial now now' t s) = status s"
  by (simp add: add_trial_def Let_def split: option.splits)

lemma add_trial_max_trials: "max_trials (add_trial now now' t s) = max_trials s"
  by (simp add: add_trial_def Let_def split: option.splits)

text \<open>
  C10. Appending a trial without a score changes only the trial list and \<open>updated_at\<close>;
  the best result is replaced only by a scored trial whose score is strictly larger than
  the score of the current best result (any scored trial when there is none yet); and for
  a trial that passed the model's field constraints the best score never decreases.
\<close>

theorem add_trial_best_frame_and_monotone:
  "(severity_score t = None \<longrightarrow>
      add_trial now now' t s = s\<lparr>trials := trials s @ [t], updated_at := now\<rparr> \<and>
      best_result (add_trial now now' t s) = best_result s \<and>
      best_score (add_trial now now' t s) = best_score s) \<and>
   (best_result (add_trial now now' t s) \<noteq> best_result s \<longrightarrow>
      (\<exists>v. severity_score t = Some v \<and>
           (case best_result s of None \<Rightarrow> True | Some b \<Rightarrow> v > best_severity_score b) \<and>
           best_score (add_trial now now' t s) = v)) \<and>
   (Trial_valid t \<longrightarrow> best_score s \<le> best_score (add_trial now now' t s))"
  by (auto simp: add_trial_def Let_def best_score_def Trial_valid_def split: option.splits)

theorem add_trial_best_frame_and_monotone_witness:
  "severity_score (make_trial 0 [] demo_observation 4 1\<lparr>severity_score := None\<rparr>) = None \<and>
   best_result (add_trial 1 1 (make_trial 0 [] demo_observation 4 1\<lparr>severity_score := None\<rparr>) demo_session) = best_result demo_session \<and>
   Trial_valid (make_trial 0 [] demo_observation 4 1) \<and>
   best_result (add_trial 1 1 (make_trial 0 [] demo_observation 4 1) demo_session) \<noteq> best_result demo_session \<and>
   best_score demo_session \<le> best_score (add_trial 1 1 (make_trial 0 [] demo_observation 4 1) demo_session) \<and>
   best_score (add_trial 1 1 (make_trial 0 [] demo_observation 4 1) demo_session) = 4"
  using add_trial_best_frame_and_monotone [of "make_trial 0 [] demo_observation 4 1\<lparr>severity_score := None\<rparr>" 1 1 demo_session]
        add_trial_best_frame_and_monotone [of "make_trial 0 [] demo_observation 4 1" 1 1 demo_session]
  by (simp add: make_trial_def demo_session_def Trial_valid_def add_trial_def best_score_def)

section \<open>Results about the analyzers\<close>

text \<open>
  C2. With baseline \<open>B\<close> below threshold \<open>T\<close>, the configuration-driven
  performance scorer gives 0 when the latency is missing or \<open>B \<le> 0\<close>, gives 10 when the
  latency is strictly above \<open>T\<close>, and otherwise the interpolation clamped to [0, 10], which
  is 9 at the threshold itself. The packaged scorer gives 0 when the latency is missing or
  at most \<open>B\<close>, 9 from the threshold on, and the plain interpolation in between.
\<close>

theorem perf_score_cases:
  assumes "B < T"
    and "baseline_latency_ms cfg = B" and "threshold_latency_ms cfg = T"
    and "baseline_ms p = B" and "threshold_ms p = T"
  shows "(raw_latency_ms obs = None \<or> B \<le> 0 \<longrightarrow> PerformanceScorer_score obs cfg = 0) \<and>
         (\<forall>A. raw_latency_ms obs = Some A \<and> 0 < B \<and> T < A \<longrightarrow> PerformanceScorer_score obs cfg = 10) \<and>
         (\<forall>A. raw_latency_ms obs = Some A \<and> 0 < B \<and> A \<le> T \<longrightarrow>
               PerformanceScorer_score obs cfg = min 10 (max 0 ((A - B) / (T - B) * 9))) \<and>
         (raw_latency_ms obs = Some T \<and> 0 < B \<longrightarrow> PerformanceScorer_score obs cfg = 9) \<and>
         (latency_ms ob = None \<longrightarrow> boifi_PerformanceScorer_score p ob = 0) \<and>
         (\<forall>A. latency_ms ob = Some A \<and> A \<le> B \<longrightarrow> boifi_PerformanceScorer_score p ob = 0) \<and>
         (\<forall>A. latency_ms ob = Some A \<and> T \<le> A \<longrightarrow> boifi_PerformanceScorer_score p ob = 9) \<and>
         (\<forall>A. latency_ms ob = Some A \<and> B < A \<and> A < T \<longrightarrow>
               boifi_PerformanceScorer_score p ob = (A - B) / (T - B) * 9)"
proof -
  have mid: "(A - B) / (T - B) * 9 \<le> 10" if "A < T" for A
  proof -
    define x where "x = (A - B) / (T - B)"
    have "x \<le> 1" unfolding x_def using assms(1) that by (simp add: divide_le_eq)
    then have "x * 9 \<le> 10" by linarith
    then show ?thesis unfolding x_def .
  qed
  show ?thesis
    using assms mid
    by (auto simp: PerformanceScorer_score_def boifi_PerformanceScorer_score_def Let_def
             split: option.splits)
qed


theorem perf_score_cases_witness:
  "(100::real) < 500 \<and>
   PerformanceScorer_score demo_raw_observation demo_config = 9 / 2 \<and>
   PerformanceScorer_score (demo_raw_observation\<lparr>raw_latency_ms := Some 600\<rparr>) demo_config = 10 \<and>
   PerformanceScorer_score (demo_raw_observation\<lparr>raw_latency_ms := None\<rparr>) demo_config = 0 \<and>
   boifi_PerformanceScorer_score (perf_scorer demo_analyzer) demo_observation = 9 / 2 \<and>
   boifi_PerformanceScorer_score (perf_scorer demo_analyzer) (demo_observation\<lparr>latency_ms := Some 600\<rparr>) = 9"
  using perf_score_cases [of 100 500 demo_config "perf_scorer demo_analyzer" demo_raw_observation demo_observation]
        perf_score_cases [of 100 500 demo_config "perf_scorer demo_analyzer"
                             "demo_raw_observation\<lparr>raw_latency_ms := Some 600\<rparr>"
                             "demo_observation\<lparr>latency_ms := Some 600\<rparr>"]
        perf_score_cases [of 100 500 demo_config "perf_scorer demo_analyzer"
                             "demo_raw_observation\<lparr>raw_latency_ms := None\<rparr>" demo_observation]
  by (simp add: demo_config_def demo_analyzer_def demo_raw_observation_def demo_observation_def)

text \<open>
  At a latency equal to the threshold, which is at least the threshold, neither scorer
  returns 10: both return 9.
\<close>

theorem perf_score_at_threshold_counterexample:
  "baseline_latency_ms demo_config < threshold_latency_ms demo_config \<and>
   raw_latency_ms (demo_raw_observation\<lparr>raw_latency_ms := Some 500\<rparr>) = Some 500 \<and>
   500 \<ge> threshold_latency_ms demo_config \<and>
   PerformanceScorer_score (demo_raw_observation\<lparr>raw_latency_ms := Some 500\<rparr>) demo_config = 9 \<and>
   PerformanceScorer_score (demo_raw_observation\<lparr>raw_latency_ms := Some 500\<rparr>) demo_config \<noteq> 10 \<and>
   boifi_PerformanceScorer_score (perf_scorer demo_analyzer) (demo_observation\<lparr>latency_ms := Some 500\<rparr>) = 9"
  by (simp add: PerformanceScorer_score_def boifi_PerformanceScorer_score_def demo_config_def
                demo_analyzer_def demo_raw_observation_def demo_observation_def)

lemma has_critical_log_iff:
  "has_critical_log ls \<longleftrightarrow>
     (\<exists>log \<in> set ls. \<exists>keyword \<in> set critical_keywords. \<exists>before after. log = before @ keyword @ after)"
  by (auto simp: has_critical_log_def list_ex_iff sublist_def)

lemma has_critical_log_Nil: "\<not> has_critical_log []"
  by (simp add: has_critical_log_def)

lemma BugScorer_score_Some:
  "raw_status_code obs = Some c \<Longrightarrow>
   BugScorer_score obs cfg =
     (if c \<ge> 500 then 10 else if c \<ge> 400 then 8
      else if has_critical_log (logs obs) then 6
      else if raw_error_rate obs > 0 then 3 else 0)"
  using has_critical_log_Nil by (cases "logs obs = []") (simp_all add: BugScorer_score_def)

lemma BugScorer_score_None: "raw_status_code obs = None \<Longrightarrow> BugScorer_score obs cfg = 0"
  by (simp add: BugScorer_score_def)

lemma BugScorer_score_six:
  "raw_status_code obs = Some c \<Longrightarrow> c < 400 \<Longrightarrow>
   (BugScorer_score obs cfg = 6 \<longleftrightarrow> has_critical_log (logs obs))"
  by (simp add: BugScorer_score_Some)

lemma boifi_BugScorer_score_ladder:
  "boifi_BugScorer_score ob =
      (if \<exists>c. status_code ob = Some c \<and> 500 \<le> c \<and> c < 600 then 10
       else if \<exists>c. status_code ob = Some c \<and> 400 \<le> c \<and> c < 500 then 8
       else if error_logs ob \<noteq> [] then 6
       else if \<exists>e. error_rate ob = Some e \<and> e > 0 then 3 else 0)"
proof (cases "status_code ob")
  case None
  then show ?thesis
    by (cases "error_rate ob") (simp_all add: boifi_BugScorer_score_def)
next
  case (Some c)
  then show ?thesis
    by (cases "error_rate ob") (auto simp add: boifi_BugScorer_score_def)
qed

lemma boifi_BugScorer_score_six:
  "status_code ob = None \<or> (\<exists>c. status_code ob = Some c \<and> c < 400) \<Longrightarrow>
   (boifi_BugScorer_score ob = 6 \<longleftrightarrow> error_logs ob \<noteq> [])"
  unfolding boifi_BugScorer_score_ladder by auto


lemma error_line_is_critical: "has_critical_log [''10:00 ERROR timeout'']"
  unfolding has_critical_log_def critical_keywords_def by code_simp

lemma info_line_is_not_critical: "\<not> has_critical_log [''10:00 INFO retrying'']"
  unfolding has_critical_log_def critical_keywords_def by code_simp

lemma lower_case_is_not_critical: "\<not> has_critical_log [''request error'']"
  unfolding has_critical_log_def critical_keywords_def by code_simp

text \<open>
  C9. In the configuration-driven scorer, for a status code that is present
  and below 400 the score is 6 exactly when some log line has one of the five keywords as
  a contiguous, case-sensitive substring, and the ladder is: status at least 500 gives 10,
  at least 400 gives 8, a keyword line 6, a positive error rate 3, otherwise 0; a missing
  status code gives 0. In the packaged scorer there are no keywords: for a status that is
  absent or below 400 the score is 6 exactly when the list of error logs is not empty.
\<close>

theorem bug_score_ladder:
  "(\<forall>c. raw_status_code obs = Some c \<longrightarrow>
        BugScorer_score obs cfg =
          (if c \<ge> 500 then 10 else if c \<ge> 400 then 8
           else if has_critical_log (logs obs) then 6
           else if raw_error_rate obs > 0 then 3 else 0)) \<and>
   (\<forall>c. raw_status_code obs = Some c \<and> c < 400 \<longrightarrow>
        (BugScorer_score obs cfg = 6 \<longleftrightarrow>
           (\<exists>log \<in> set (logs obs). \<exists>keyword \<in> set critical_keywords.
               \<exists>before after. log = before @ keyword @ after))) \<and>
   (raw_status_code obs = None \<longrightarrow> BugScorer_score obs cfg = 0) \<and>
   (boifi_BugScorer_score ob =
      (if \<exists>c. status_code ob = Some c \<and> 500 \<le> c \<and> c < 600 then 10
       else if \<exists>c. status_code ob = Some c \<and> 400 \<le> c \<and> c < 500 then 8
       else if error_logs ob \<noteq> [] then 6
       else if \<exists>e. error_rate ob = Some e \<and> e > 0 then 3 else 0)) \<and>
   ((status_code ob = None \<or> (\<exists>c. status_code ob = Some c \<and> c < 400)) \<longrightarrow>
        (boifi_BugScorer_score ob = 6 \<longleftrightarrow> error_logs ob \<noteq> []))"
proof (intro conjI allI impI)
  fix c assume "raw_status_code obs = Some c"
  then show "BugScorer_score obs cfg =
          (if c \<ge> 500 then 10 else if c \<ge> 400 then 8
           else if has_critical_log (logs obs) then 6
           else if raw_error_rate obs > 0 then 3 else 0)"
    by (rule BugScorer_score_Some)
next
  fix c assume "raw_status_code obs = Some c \<and> c < 400"
  then have "BugScorer_score obs cfg = 6 \<longleftrightarrow> has_critical_log (logs obs)"
    using BugScorer_score_six by blast
  then show "BugScorer_score obs cfg = 6 \<longleftrightarrow>
           (\<exists>log \<in> set (logs obs). \<exists>keyword \<in> set critical_keywords.
               \<exists>before after. log = before @ keyword @ after)"
    unfolding has_critical_log_iff .
next
  assume "raw_status_code obs = None"
  then show "BugScorer_score obs cfg = 0" by (rule BugScorer_score_None)
next
  show "boifi_BugScorer_score ob =
      (if \<exists>c. status_code ob = Some c \<and> 500 \<le> c \<and> c < 600 then 10
       else if \<exists>c. status_code ob = Some c \<and> 400 \<le> c \<and> c < 500 then 8
       else if error_logs ob \<noteq> [] then 6
       else if \<exists>e. error_rate ob = Some e \<and> e > 0 then 3 else 0)"
    by (rule boifi_BugScorer_score_ladder)
next
  assume "status_code ob = None \<or> (\<exists>c. status_code ob = Some c \<and> c < 400)"
  then show "boifi_BugScorer_score ob = 6 \<longleftrightarrow> error_logs ob \<noteq> []"
    by (rule boifi_BugScorer_score_six)
qed

theorem bug_score_ladder_witness:
  "BugScorer_score (demo_raw_observation\<lparr>logs := [''10:00 ERROR timeout'']\<rparr>) demo_config = 6 \<and>
   BugScorer_score (demo_raw_observation\<lparr>logs := [''10:00 INFO retrying'']\<rparr>) demo_config = 0 \<and>
   BugScorer_score (demo_raw_observation\<lparr>raw_status_code := None\<rparr>) demo_config = 0 \<and>
   boifi_BugScorer_score (demo_observation\<lparr>error_logs := [''timeout'']\<rparr>) = 6"
proof -
  note a = bug_score_ladder [of "demo_raw_observation\<lparr>logs := [''10:00 ERROR timeout'']\<rparr>" demo_config
                                "demo_observation\<lparr>error_logs := [''timeout'']\<rparr>"]
  note b = bug_score_ladder [of "demo_raw_observation\<lparr>logs := [''10:00 INFO retrying'']\<rparr>" demo_config
                                demo_observation, THEN conjunct1]
  note c = bug_score_ladder [of "demo_raw_observation\<lparr>raw_status_code := None\<rparr>" demo_config
                                demo_observation, THEN conjunct2, THEN conjunct2, THEN conjunct1]
  have "BugScorer_score (demo_raw_observation\<lparr>logs := [''10:00 ERROR timeout'']\<rparr>) demo_config = 6"
    using a [THEN conjunct1] error_line_is_critical by (simp add: demo_raw_observation_def)
  moreover have "BugScorer_score (demo_raw_observation\<lparr>logs := [''10:00 INFO retrying'']\<rparr>) demo_config = 0"
    using b info_line_is_not_critical by (simp add: demo_raw_observation_def)
  moreover have "BugScorer_score (demo_raw_observation\<lparr>raw_status_code := None\<rparr>) demo_config = 0"
    using c by (simp add: demo_raw_observation_def)
  moreover have "boifi_BugScorer_score (demo_observation\<lparr>error_logs := [''timeout'']\<rparr>) = 6"
    using a [THEN conjunct2, THEN conjunct2, THEN conjunct2, THEN conjunct2]
    by (simp add: demo_observation_def)
  ultimately show ?thesis by blast
qed

text \<open>
  With status 200 and a log line that has none of the keywords the packaged scorer
  returns 6; with no status code and an \<open>ERROR\<close> line the configuration-driven scorer
  returns 0.
\<close>

theorem bug_score_keyword_counterexample:
  "status_code (demo_observation\<lparr>error_logs := [''request error'']\<rparr>) = Some 200 \<and>
   \<not> has_critical_log (error_logs (demo_observation\<lparr>error_logs := [''request error'']\<rparr>)) \<and>
   boifi_BugScorer_score (demo_observation\<lparr>error_logs := [''request error'']\<rparr>) = 6 \<and>
   raw_status_code (demo_raw_observation\<lparr>raw_status_code := None, logs := [''10:00 ERROR timeout'']\<rparr>) = None \<and>
   has_critical_log (logs (demo_raw_observation\<lparr>raw_status_code := None, logs := [''10:00 ERROR timeout'']\<rparr>)) \<and>
   BugScorer_score (demo_raw_observation\<lparr>raw_status_code := None, logs := [''10:00 ERROR timeout'']\<rparr>) demo_config = 0"
  using error_line_is_critical lower_case_is_not_critical
  by (simp add: demo_raw_observation_def demo_observation_def BugScorer_score_def boifi_BugScorer_score_def)

text \<open>
  C7. With all three weights zero the packaged analyzer cannot be constructed: the
  normalisation divides by the zero sum. The documented result for zero weights is a total score of 0.
\<close>

theorem zero_weights_division_by_zero:
  "boifi_AnalyzerService_init baseline threshold 0 0 0 = Inl ZeroDivisionError \<and>
   boifi_severity baseline threshold 0 0 0 obs = Inl ZeroDivisionError"
  by (simp add: boifi_AnalyzerService_init_def boifi_severity_def)

text \<open>The configuration-driven analyzer does return 0 for zero weights.\<close>

lemma calculate_severity_zero_weights:
  assumes "weights cfg ''bug'' = Some 0" "weights cfg ''perf'' = Some 0" "weights cfg ''struct'' = Some 0"
  shows "calculate_severity cfg (Some obs) = Inr (0, None)"
  using assms by (simp add: calculate_severity_def get_weight_def Let_def)

section \<open>Results about the circuit breaker\<close>

lemma record_failures_snoc:
  "record_failures (ts @ [t]) cb = record_failure t (record_failures ts cb)"
  by (induction ts arbitrary: cb) simp_all

lemma record_failure_fields:
  "failure_count (record_failure now cb) = failure_count cb + 1"
  "failure_threshold (record_failure now cb) = failure_threshold cb"
  "recovery_timeout (record_failure now cb) = recovery_timeout cb"
  "last_failure_time (record_failure now cb) = Some now"
  by (simp_all add: record_failure_def Let_def)

lemma record_failure_state:
  "state (record_failure now cb) =
     (if failure_count cb + 1 \<ge> failure_threshold cb then OPEN else state cb)"
  by (simp add: record_failure_def Let_def)

lemma record_failures_fields:
  "failure_count (record_failures ts cb) = failure_count cb + int (length ts)"
  "failure_threshold (record_failures ts cb) = failure_threshold cb"
  "recovery_timeout (record_failures ts cb) = recovery_timeout cb"
  by (induction ts arbitrary: cb) (simp_all add: record_failure_fields)

lemma record_failures_last:
  "ts \<noteq> [] \<Longrightarrow> last_failure_time (record_failures ts cb) = Some (last ts)"
  by (induction ts rule: rev_induct) (simp_all add: record_failures_snoc record_failure_fields)

lemma record_failures_state:
  "state cb = CLOSED \<Longrightarrow>
   state (record_failures ts cb) =
     (if ts \<noteq> [] \<and> failure_count cb + int (length ts) \<ge> failure_threshold cb then OPEN else CLOSED)"
proof (induction ts rule: rev_induct)
  case Nil
  then show ?case by simp
next
  case (snoc t ts)
  then show ?case
    by (auto simp: record_failures_snoc record_failure_state record_failures_fields)
qed

text \<open>A breaker that has left \<open>CLOSED\<close> has reached its threshold.\<close>

lemma reachable_breaker_count:
  "reachable_breaker cb \<Longrightarrow> state cb \<noteq> CLOSED \<Longrightarrow> failure_count cb \<ge> failure_threshold cb"
proof (induction rule: reachable_breaker.induct)
  case (fresh threshold timeout)
  then show ?case by (simp add: CircuitBreaker_init_def)
next
  case (after_can_attempt cb now)
  then show ?case by (auto simp: can_attempt_def split: if_splits option.splits)
next
  case (after_success cb)
  then show ?case by (auto simp: record_success_def split: if_splits)
next
  case (after_failure cb now)
  then show ?case
    by (cases "state cb = CLOSED") (auto simp: record_failure_def Let_def split: if_splits)
qed

text \<open>
  The transitions of the breaker. From a closed breaker with no failures counted,
  recording failures opens the breaker exactly when their number reaches
  \<open>failure_threshold\<close>, and the next call is then refused while no more than
  \<open>recovery_timeout\<close> has passed since the last failure. Once strictly more has passed,
  a call is admitted and moves the breaker to \<open>HALF_OPEN\<close>. A success in
  \<open>HALF_OPEN\<close> closes the breaker and zeroes the count; a failure reopens it with the
  new failure time, and calls are refused again.
\<close>

lemma circuit_breaker_transitions:
  assumes "reachable_breaker cb"
  shows "(state cb = CLOSED \<and> failure_count cb = 0 \<longrightarrow>
            state (record_failures ts cb) =
              (if ts \<noteq> [] \<and> int (length ts) \<ge> failure_threshold cb then OPEN else CLOSED)) \<and>
         (state cb = CLOSED \<and> failure_count cb = 0 \<and> ts \<noteq> [] \<and> int (length ts) = failure_threshold cb \<and>
            now - last ts \<le> real_of_int (recovery_timeout cb) \<longrightarrow>
            can_attempt now (record_failures ts cb) = (False, record_failures ts cb)) \<and>
         (state cb = OPEN \<and> last_failure_time cb = Some t \<and> t \<noteq> 0 \<and>
            now - t > real_of_int (recovery_timeout cb) \<longrightarrow>
            can_attempt now cb = (True, cb\<lparr>state := HALF_OPEN\<rparr>)) \<and>
         (state cb = OPEN \<and> last_failure_time cb = Some t \<and>
            now - t \<le> real_of_int (recovery_timeout cb) \<longrightarrow>
            can_attempt now cb = (False, cb)) \<and>
         (state cb = HALF_OPEN \<longrightarrow> can_attempt now cb = (True, cb)) \<and>
         (state cb = HALF_OPEN \<longrightarrow>
            state (record_success cb) = CLOSED \<and> failure_count (record_success cb) = 0) \<and>
         (state cb = HALF_OPEN \<longrightarrow>
            state (record_failure now cb) = OPEN \<and>
            last_failure_time (record_failure now cb) = Some now \<and>
            (now' - now \<le> real_of_int (recovery_timeout cb) \<longrightarrow>
               can_attempt now' (record_failure now cb) = (False, record_failure now cb)))"
proof (intro conjI impI)
  assume "state cb = CLOSED \<and> failure_count cb = 0"
  then show "state (record_failures ts cb) =
              (if ts \<noteq> [] \<and> int (length ts) \<ge> failure_threshold cb then OPEN else CLOSED)"
    by (simp add: record_failures_state)
next
  assume a: "state cb = CLOSED \<and> failure_count cb = 0 \<and> ts \<noteq> [] \<and> int (length ts) = failure_threshold cb \<and>
            now - last ts \<le> real_of_int (recovery_timeout cb)"
  then have "state (record_failures ts cb) = OPEN"
    by (simp add: record_failures_state)
  moreover have "last_failure_time (record_failures ts cb) = Some (last ts)"
    using a by (simp add: record_failures_last)
  ultimately show "can_attempt now (record_failures ts cb) = (False, record_failures ts cb)"
    using a by (simp add: can_attempt_def record_failures_fields)
next
  assume "state cb = OPEN \<and> last_failure_time cb = Some t \<and> t \<noteq> 0 \<and>
            now - t > real_of_int (recovery_timeout cb)"
  then show "can_attempt now cb = (True, cb\<lparr>state := HALF_OPEN\<rparr>)"
    by (simp add: can_attempt_def)
next
  assume "state cb = OPEN \<and> last_failure_time cb = Some t \<and>
            now - t \<le> real_of_int (recovery_timeout cb)"
  then show "can_attempt now cb = (False, cb)"
    by (simp add: can_attempt_def)
next
  assume "state cb = HALF_OPEN"
  then show "can_attempt now cb = (True, cb)"
    by (simp add: can_attempt_def)
next
  assume "state cb = HALF_OPEN"
  then show "state (record_success cb) = CLOSED" "failure_count (record_success cb) = 0"
    by (simp_all add: record_success_def)
next
  assume h: "state cb = HALF_OPEN"
  then have "failure_count cb \<ge> failure_threshold cb"
    using assms reachable_breaker_count by simp
  then show st: "state (record_failure now cb) = OPEN"
    by (simp add: record_failure_state)
  show lt: "last_failure_time (record_failure now cb) = Some now"
    by (simp add: record_failure_fields)
  assume "now' - now \<le> real_of_int (recovery_timeout cb)"
  then show "can_attempt now' (record_failure now cb) = (False, record_failure now cb)"
    using st lt by (simp add: can_attempt_def record_failure_fields)
qed


lemma reachable_record_failures:
  "reachable_breaker cb \<Longrightarrow> reachable_breaker (record_failures ts cb)"
  by (induction ts arbitrary: cb) (simp_all add: reachable_breaker.after_failure)

lemma tripped_breaker_eq:
  "tripped_breaker = \<lparr>failure_threshold = 3, recovery_timeout = 60, state = OPEN,
                       failure_count = 3, last_failure_time = Some 3\<rparr>"
  by (simp add: tripped_breaker_def CircuitBreaker_init_def record_failure_def Let_def)

lemma reachable_tripped_breaker: "reachable_breaker tripped_breaker"
  unfolding tripped_breaker_def by (intro reachable_record_failures reachable_breaker.fresh)

lemma reachable_half_open: "reachable_breaker (tripped_breaker\<lparr>state := HALF_OPEN\<rparr>)"
proof -
  have "snd (can_attempt 100 tripped_breaker) = tripped_breaker\<lparr>state := HALF_OPEN\<rparr>"
    by (simp add: tripped_breaker_eq can_attempt_def)
  then show ?thesis
    using reachable_breaker.after_can_attempt [OF reachable_tripped_breaker, of 100] by simp
qed

lemma circuit_breaker_transitions_at_tripped:
  "reachable_breaker (CircuitBreaker_init 3 60) \<and>
   state (record_failures [1, 2] (CircuitBreaker_init 3 60)) = CLOSED \<and>
   state (record_failures [1, 2, 3] (CircuitBreaker_init 3 60)) = OPEN \<and>
   can_attempt 10 (record_failures [1, 2, 3] (CircuitBreaker_init 3 60))
     = (False, record_failures [1, 2, 3] (CircuitBreaker_init 3 60)) \<and>
   can_attempt 100 tripped_breaker = (True, tripped_breaker\<lparr>state := HALF_OPEN\<rparr>) \<and>
   state (record_success (tripped_breaker\<lparr>state := HALF_OPEN\<rparr>)) = CLOSED \<and>
   failure_count (record_success (tripped_breaker\<lparr>state := HALF_OPEN\<rparr>)) = 0 \<and>
   state (record_failure 101 (tripped_breaker\<lparr>state := HALF_OPEN\<rparr>)) = OPEN \<and>
   last_failure_time (record_failure 101 (tripped_breaker\<lparr>state := HALF_OPEN\<rparr>)) = Some 101"
proof -
  note init = reachable_breaker.fresh [of 3 60]
  have a: "state (record_failures [1, 2] (CircuitBreaker_init 3 60)) = CLOSED"
    using circuit_breaker_transitions [OF init, of "[1, 2]", THEN conjunct1]
    by (simp add: CircuitBreaker_init_def)
  have b: "state (record_failures [1, 2, 3] (CircuitBreaker_init 3 60)) = OPEN"
    using circuit_breaker_transitions [OF init, of "[1, 2, 3]", THEN conjunct1]
    by (simp add: CircuitBreaker_init_def)
  have c: "can_attempt 10 (record_failures [1, 2, 3] (CircuitBreaker_init 3 60))
             = (False, record_failures [1, 2, 3] (CircuitBreaker_init 3 60))"
    using circuit_breaker_transitions [OF init, of "[1, 2, 3]" 10, THEN conjunct2, THEN conjunct1]
    by (simp add: CircuitBreaker_init_def)
  have d: "can_attempt 100 tripped_breaker = (True, tripped_breaker\<lparr>state := HALF_OPEN\<rparr>)"
    using circuit_breaker_transitions [OF reachable_tripped_breaker, of "[]" 100 3,
            THEN conjunct2, THEN conjunct2, THEN conjunct1]
    by (simp add: tripped_breaker_eq)
  have e: "state (record_success (tripped_breaker\<lparr>state := HALF_OPEN\<rparr>)) = CLOSED \<and>
           failure_count (record_success (tripped_breaker\<lparr>state := HALF_OPEN\<rparr>)) = 0"
    using circuit_breaker_transitions [OF reachable_half_open, of "[]" 0 0,
            THEN conjunct2, THEN conjunct2, THEN conjunct2, THEN conjunct2, THEN conjunct2, THEN conjunct1]
    by simp
  have f: "state (record_failure 101 (tripped_breaker\<lparr>state := HALF_OPEN\<rparr>)) = OPEN \<and>
           last_failure_time (record_failure 101 (tripped_breaker\<lparr>state := HALF_OPEN\<rparr>)) = Some 101"
    using circuit_breaker_transitions [OF reachable_half_open, of "[]" 101 0 102,
            THEN conjunct2, THEN conjunct2, THEN conjunct2, THEN conjunct2, THEN conjunct2, THEN conjunct2]
    by simp
  show ?thesis using init a b c d e f by blast
qed

section \<open>Results about the executor client\<close>

lemma upt_from: "[a..<a + Suc n] = a # [Suc a..<Suc a + n]"
  by (simp add: upt_conv_Cons del: upt_Suc)

text \<open>
  The loop returns \<open>None\<close> exactly when the first attempt that is not retried, if there
  is one, gives up.
\<close>

lemma retry_loop_None_iff:
  "fst (retry_loop c env n a cb sleeps) = None \<longleftrightarrow>
     (case dropWhile retried (map (\<lambda>i. http (env i)) [a..<a + n]) of
        [] \<Rightarrow> True
      | r # rs \<Rightarrow> gives_up r)"
proof (induction n arbitrary: a cb sleeps)
  case 0
  then show ?case by simp
next
  case (Suc n)
  show ?case
  proof (cases "http (env a)")
    case (Response code body)
    then show ?thesis
      unfolding upt_from
      by (cases body) (simp_all add: Suc.IH)
  next
    case TimeoutException
    then show ?thesis unfolding upt_from by (simp add: Suc.IH)
  next
    case ConnectError
    then show ?thesis unfolding upt_from by (simp add: Suc.IH)
  next
    case OtherException
    then show ?thesis unfolding upt_from by simp
  qed
qed


lemma retry_loop_4xx:
  "k < n \<Longrightarrow> (\<forall>i<k. retried (http (env (a + i)))) \<Longrightarrow> is_4xx (http (env (a + k))) \<Longrightarrow>
   \<exists>cb' sleeps'. retry_loop c env n a cb sleeps = (None, cb', sleeps') \<and>
      last_failure_time cb' = Some (failure_clock (env (a + k))) \<and>
      failure_count cb' \<ge> failure_count cb + 1"
proof (induction k arbitrary: n a cb sleeps)
  case 0
  then obtain m where n: "n = Suc m" by (cases n) auto
  from 0 obtain code body where r: "http (env a) = Response code body" "400 \<le> code" "code < 500"
    by (cases "http (env a)") auto
  then show ?case
    using n by (simp add: record_failure_fields)
next
  case (Suc k)
  then obtain m where n: "n = Suc m" and km: "k < m" by (cases n) auto
  have later: "\<forall>i<k. retried (http (env (Suc a + i)))"
    using Suc.prems(2) by (metis Suc_less_eq add_Suc_right add_Suc)
  have last: "is_4xx (http (env (Suc a + k)))"
    using Suc.prems(3) by simp
  have first: "retried (http (env a))"
    using Suc.prems(2) by (metis add_0_right zero_less_Suc)
  note IH = Suc.IH [OF km later last]
  show ?case
  proof (cases "http (env a)")
    case (Response code body)
    with first have "code \<noteq> 200" "code \<ge> 500" by simp_all
    then show ?thesis
      using IH [of cb] Response n by simp
  next
    case TimeoutException
    obtain cb' sleeps' where
      "retry_loop c env m (Suc a) (record_failure (failure_clock (env a)) cb)
         (sleeps @ [delay_with_backoff c a (jitter_draw (env a))]) = (None, cb', sleeps')"
      "last_failure_time cb' = Some (failure_clock (env (Suc a + k)))"
      "failure_count cb' \<ge> failure_count (record_failure (failure_clock (env a)) cb) + 1"
      using IH by blast
    then show ?thesis
      using TimeoutException n by (simp add: record_failure_fields)
  next
    case ConnectError
    obtain cb' sleeps' where
      "retry_loop c env m (Suc a) (record_failure (failure_clock (env a)) cb)
         (sleeps @ [delay_with_backoff c a (jitter_draw (env a))]) = (None, cb', sleeps')"
      "last_failure_time cb' = Some (failure_clock (env (Suc a + k)))"
      "failure_count cb' \<ge> failure_count (record_failure (failure_clock (env a)) cb) + 1"
      using IH by blast
    then show ?thesis
      using ConnectError n by (simp add: record_failure_fields)
  next
    case OtherException
    with first show ?thesis by simp
  qed
qed

lemma can_attempt_failure_count: "failure_count (snd (can_attempt now cb)) = failure_count cb"
  by (simp add: can_attempt_def split: option.splits)

text \<open>A 5xx answer leaves the breaker as it is, however many attempts there are.\<close>

lemma retry_loop_5xx_breaker:
  "(\<forall>i<n. \<exists>code body. http (env (a + i)) = Response code body \<and> code \<ge> 500) \<Longrightarrow>
   fst (retry_loop c env n a cb sleeps) = None \<and> fst (snd (retry_loop c env n a cb sleeps)) = cb"
proof (induction n arbitrary: a sleeps)
  case 0
  then show ?case by simp
next
  case (Suc n)
  from Suc.prems obtain code body where r: "http (env a) = Response code body" "code \<ge> 500"
    by (metis add_0_right zero_less_Suc)
  have "\<forall>i<n. \<exists>code body. http (env (Suc a + i)) = Response code body \<and> code \<ge> 500"
    using Suc.prems by (metis Suc_less_eq add_Suc_right add_Suc)
  then show ?case
    using r Suc.IH [of "Suc a"] by simp
qed

text \<open>
  C4. \<open>apply_policy\<close> returns \<open>None\<close> exactly when the breaker refuses
  the call, or every attempt was retried (the attempts are exhausted), or the first attempt
  that was not retried gave up: a response other than 200 below 500 (every 4xx, and also
  1xx, 3xx and the other 2xx), an exception other than a timeout or connect error, or a
  200 response whose body is \<open>null\<close> or cannot be decoded. When retried attempts are
  followed by a 4xx the call returns \<open>None\<close> and a breaker failure is recorded with
  that attempt's clock reading.
\<close>

theorem apply_policy_None_iff:
  "(fst (apply_policy now env c) = None \<longleftrightarrow>
      \<not> fst (can_attempt now (circuit_breaker c)) \<or>
      (case dropWhile retried (map (\<lambda>i. http (env i)) [0..<nat (max_retries c)]) of
         [] \<Rightarrow> True
       | r # rs \<Rightarrow> gives_up r)) \<and>
   (fst (can_attempt now (circuit_breaker c)) \<and> k < nat (max_retries c) \<and>
      (\<forall>i<k. retried (http (env i))) \<and> is_4xx (http (env k)) \<longrightarrow>
      fst (apply_policy now env c) = None \<and>
      last_failure_time (circuit_breaker (fst (snd (apply_policy now env c))))
        = Some (failure_clock (env k)) \<and>
      failure_count (circuit_breaker (fst (snd (apply_policy now env c))))
        \<ge> failure_count (circuit_breaker c) + 1)"
proof (intro conjI impI)
  obtain ok cb1 where ca: "can_attempt now (circuit_breaker c) = (ok, cb1)"
    by (cases "can_attempt now (circuit_breaker c)")
  obtain r cb2 sl where rl: "retry_loop c env (nat (max_retries c)) 0 cb1 [] = (r, cb2, sl)"
    by (cases "retry_loop c env (nat (max_retries c)) 0 cb1 []")
  have "r = None \<longleftrightarrow>
          (case dropWhile retried (map (\<lambda>i. http (env i)) [0..<nat (max_retries c)]) of
             [] \<Rightarrow> True | r # rs \<Rightarrow> gives_up r)"
    using retry_loop_None_iff [of c env "nat (max_retries c)" 0 cb1 "[]"] rl by simp
  then show "fst (apply_policy now env c) = None \<longleftrightarrow>
      \<not> fst (can_attempt now (circuit_breaker c)) \<or>
      (case dropWhile retried (map (\<lambda>i. http (env i)) [0..<nat (max_retries c)]) of
         [] \<Rightarrow> True
       | r # rs \<Rightarrow> gives_up r)"
    using ca rl by (cases ok) (simp_all add: apply_policy_def)
next
  assume h: "fst (can_attempt now (circuit_breaker c)) \<and> k < nat (max_retries c) \<and>
      (\<forall>i<k. retried (http (env i))) \<and> is_4xx (http (env k))"
  obtain cb1 where ca: "can_attempt now (circuit_breaker c) = (True, cb1)"
    using h by (cases "can_attempt now (circuit_breaker c)") auto
  have cnt: "failure_count cb1 = failure_count (circuit_breaker c)"
    using can_attempt_failure_count [of now "circuit_breaker c"] ca by simp
  obtain cb' sleeps' where rl:
    "retry_loop c env (nat (max_retries c)) 0 cb1 [] = (None, cb', sleeps')"
    "last_failure_time cb' = Some (failure_clock (env k))"
    "failure_count cb' \<ge> failure_count cb1 + 1"
    using retry_loop_4xx [of k "nat (max_retries c)" env 0 c cb1 "[]"] h by auto
  show "fst (apply_policy now env c) = None"
    using ca rl by (simp add: apply_policy_def)
  show "last_failure_time (circuit_breaker (fst (snd (apply_policy now env c))))
        = Some (failure_clock (env k))"
    using ca rl by (simp add: apply_policy_def)
  show "failure_count (circuit_breaker (fst (snd (apply_policy now env c))))
        \<ge> failure_count (circuit_breaker c) + 1"
    using ca rl cnt by (simp add: apply_policy_def)
qed


lemma demo_client_eq:
  "demo_client = \<lparr>executor_url = ''http://localhost:8001'', timeout = 30, max_retries = 5,
      base_delay = 1 / 2, max_delay = 8, jitter_percent = 10,
      circuit_breaker = \<lparr>failure_threshold = 5, recovery_timeout = 60, state = CLOSED,
                           failure_count = 0, last_failure_time = None\<rparr>\<rparr>"
  by (simp add: demo_client_def ExecutorClient_init_def CircuitBreaker_init_def)

lemma upt_5: "[0..<5] = [0, 1, 2, 3, 4::nat]"
  by (simp add: upt_conv_Cons eval_nat_numeral del: upt_Suc)

theorem apply_policy_None_iff_witness:
  "fst (apply_policy 0 env_404 demo_client) = None \<and>
   last_failure_time (circuit_breaker (fst (snd (apply_policy 0 env_404 demo_client)))) = Some 7 \<and>
   failure_count (circuit_breaker (fst (snd (apply_policy 0 env_404 demo_client)))) \<ge> 1 \<and>
   fst (apply_policy 0 env_ok demo_client) \<noteq> None"
proof -
  have ca: "fst (can_attempt 0 (circuit_breaker demo_client))"
    by (simp add: demo_client_eq can_attempt_def)
  have "fst (can_attempt 0 (circuit_breaker demo_client)) \<and> 0 < nat (max_retries demo_client) \<and>
      (\<forall>i<0::nat. retried (http (env_404 i))) \<and> is_4xx (http (env_404 0))"
    using ca by (simp add: demo_client_eq env_404_def)
  then have a: "fst (apply_policy 0 env_404 demo_client) = None \<and>
      last_failure_time (circuit_breaker (fst (snd (apply_policy 0 env_404 demo_client))))
        = Some (failure_clock (env_404 0)) \<and>
      failure_count (circuit_breaker (fst (snd (apply_policy 0 env_404 demo_client))))
        \<ge> failure_count (circuit_breaker demo_client) + 1"
    using apply_policy_None_iff [of 0 env_404 demo_client 0, THEN conjunct2] by blast
  have b: "fst (apply_policy 0 env_ok demo_client) \<noteq> None"
    using apply_policy_None_iff [of 0 env_ok demo_client 0, THEN conjunct1] ca
    by (simp add: demo_client_eq upt_5 env_ok_def)
  show ?thesis
    using a b by (simp add: env_404_def demo_client_eq)
qed

text \<open>
  A 201 answer on the first of five attempts: the call returns \<open>None\<close> although the
  breaker admitted it, attempts remain, and the answer is not a 4xx.
\<close>

theorem apply_policy_201_counterexample:
  "fst (apply_policy 0 env_201 demo_client) = None \<and>
   fst (can_attempt 0 (circuit_breaker demo_client)) \<and>
   max_retries demo_client = 5 \<and>
   snd (snd (apply_policy 0 env_201 demo_client)) = [] \<and>
   \<not> retried (http (env_201 0)) \<and>
   \<not> is_4xx (http (env_201 0))"
  by (simp add: apply_policy_def can_attempt_def demo_client_eq env_201_def eval_nat_numeral)

text \<open>
  C5. Five 503 answers in a row: the client backs off 0.5, 1, 2, 4 and 8 seconds and
  returns \<open>None\<close>, and the breaker is exactly as before, closed with no failure counted.
  Five timeouts in a row count five failures and open it.
\<close>

theorem apply_policy_503_not_counted:
  "apply_policy 0 env_503 demo_client = (None, demo_client, [1 / 2, 1, 2, 4, 8]) \<and>
   failure_count (circuit_breaker demo_client) = 0 \<and>
   state (circuit_breaker demo_client) = CLOSED \<and>
   failure_count (circuit_breaker (fst (snd (apply_policy 0 env_timeout demo_client)))) = 5 \<and>
   state (circuit_breaker (fst (snd (apply_policy 0 env_timeout demo_client)))) = OPEN"
  by (simp add: apply_policy_def can_attempt_def demo_client_eq env_503_def env_timeout_def
        eval_nat_numeral delay_with_backoff_def record_failure_def Let_def)

section \<open>Results about stopping a session\<close>

lemma stop_session_running:
  "m sid = Some s \<Longrightarrow> status s = RUNNING \<Longrightarrow>
   stop_session now now' sid m =
     Inr (Some (s\<lparr>status := COMPLETED, completed_at := Some now', updated_at := now'\<rparr>),
          m(sid \<mapsto> s\<lparr>status := COMPLETED, completed_at := Some now', updated_at := now'\<rparr>))"
  by (simp add: stop_session_def transition_to_stopping_def transition_to_completed_def)

text \<open>
  C3. Stopping a running session through the manager: the returned and stored session is
  already \<open>COMPLETED\<close>, not \<open>STOPPING\<close>, when \<open>stop_session\<close> returns; the worker's
  flag is not part of what the call touches, and the worker's own transition to
  \<open>COMPLETED\<close> at the end of its loop then raises.
\<close>

theorem stop_session_completes_at_once:
  "status demo_running = RUNNING \<and>
   stop_session 2 2 ''s-1'' [''s-1'' \<mapsto> demo_running]
     = Inr (Some demo_stopped, [''s-1'' \<mapsto> demo_stopped]) \<and>
   status demo_stopped = COMPLETED \<and>
   status demo_stopped \<noteq> STOPPING \<and>
   transition_to_completed 3 demo_stopped = Inl (ValueError ''Cannot transition to COMPLETED'')"
  by (simp add: stop_session_running demo_running_def demo_stopped_def demo_session_def
        transition_to_completed_def)

section \<open>Results about the worker\<close>

lemma strictly_sorted_nth_ge:
  "sorted_wrt (<) (ids :: nat list) \<Longrightarrow> p < length ids \<Longrightarrow> p \<le> ids ! p"
proof (induction p)
  case 0
  then show ?case by simp
next
  case (Suc p)
  then have "ids ! p < ids ! Suc p"
    by (simp add: sorted_wrt_nth_less)
  moreover have "p \<le> ids ! p" using Suc by simp
  ultimately show ?case by linarith
qed

text \<open>
  The trials the loop appends carry the indices of the iterations that recorded them.
\<close>

lemma worker_loop_ids:
  "\<exists>ids. map trial_id (trials (snd (worker_loop an env n i s)))
           = map trial_id (trials s) @ map int ids \<and>
         sorted_wrt (<) ids \<and>
         (\<forall>j\<in>set ids. i \<le> j \<and> j < i + n \<and> applied (env j) \<noteq> None) \<and>
         ((\<forall>j. i \<le> j \<and> j < i + n \<longrightarrow> applied (env j) \<noteq> None) \<longrightarrow> ids = [i..<i + length ids])"
proof (induction n arbitrary: i s)
  case 0
  show ?case by (rule exI [of _ "[]"]) simp
next
  case (Suc n)
  show ?case
  proof (cases "stop_flag_set (env i)")
    case True
    show ?thesis by (rule exI [of _ "[]"]) (simp add: True)
  next
    case nostop: False
    show ?thesis
    proof (cases "proposed (env i)")
      case (Inl err)
      show ?thesis by (rule exI [of _ "[]"]) (simp add: nostop Inl)
    next
      case (Inr plan)
      show ?thesis
      proof (cases "applied (env i)")
        case None
        obtain ids where ids:
          "map trial_id (trials (snd (worker_loop an env n (Suc i) s)))
             = map trial_id (trials s) @ map int ids"
          "sorted_wrt (<) ids"
          "\<forall>j\<in>set ids. Suc i \<le> j \<and> j < Suc i + n \<and> applied (env j) \<noteq> None"
          using Suc.IH [of "Suc i" s] by blast
        have "\<not> (\<forall>j. i \<le> j \<and> j < i + Suc n \<longrightarrow> applied (env j) \<noteq> None)"
          using None by auto
        then show ?thesis
          using ids by (intro exI [of _ ids]) (auto simp: nostop Inr None)
      next
        case (Some obs)
        define s1 where "s1 = add_trial (clock (env i)) (clock (env i))
              (make_trial i plan obs (total_score (boifi_calculate_severity an obs)) (clock (env i))) s"
        have t1: "map trial_id (trials s1) = map trial_id (trials s) @ [int i]"
          by (simp add: s1_def add_trial_trials make_trial_def)
        show ?thesis
        proof (cases "record_raises (env i)")
          case raises: (Some err)
          have "snd (worker_loop an env (Suc n) i s) = s1"
            by (simp add: nostop Inr Some raises s1_def Let_def)
          then show ?thesis
            using t1 Some by (intro exI [of _ "[i]"]) simp
        next
          case ok: None
          have step: "worker_loop an env (Suc n) i s = worker_loop an env n (Suc i) s1"
            by (simp add: nostop Inr Some ok s1_def Let_def)
          obtain ids where ids:
            "map trial_id (trials (snd (worker_loop an env n (Suc i) s1)))
               = map trial_id (trials s1) @ map int ids"
            "sorted_wrt (<) ids"
            "\<forall>j\<in>set ids. Suc i \<le> j \<and> j < Suc i + n \<and> applied (env j) \<noteq> None"
            "(\<forall>j. Suc i \<le> j \<and> j < Suc i + n \<longrightarrow> applied (env j) \<noteq> None) \<longrightarrow>
               ids = [Suc i..<Suc i + length ids]"
            using Suc.IH [of "Suc i" s1] by blast
          have a: "map trial_id (trials (snd (worker_loop an env (Suc n) i s)))
                     = map trial_id (trials s) @ map int (i # ids)"
            using ids(1) t1 step by simp
          have b: "sorted_wrt (<) (i # ids)"
            using ids(2,3) by auto
          have c: "\<forall>j\<in>set (i # ids). i \<le> j \<and> j < i + Suc n \<and> applied (env j) \<noteq> None"
            using ids(3) Some by auto
          have d: "(\<forall>j. i \<le> j \<and> j < i + Suc n \<longrightarrow> applied (env j) \<noteq> None) \<longrightarrow>
                     i # ids = [i..<i + length (i # ids)]"
          proof
            assume all: "\<forall>j. i \<le> j \<and> j < i + Suc n \<longrightarrow> applied (env j) \<noteq> None"
            then have "ids = [Suc i..<Suc i + length ids]"
              using ids(4) by simp
            then have "i # ids = i # [Suc i..<Suc i + length ids]" by simp
            also have "\<dots> = [i..<i + Suc (length ids)]"
              by (simp add: upt_conv_Cons del: upt_Suc)
            finally show "i # ids = [i..<i + length (i # ids)]" by simp
          qed
          show ?thesis
            using a b c d by (intro exI [of _ "i # ids"]) blast
        qed
      qed
    qed
  qed
qed


lemma run_session_trials:
  "trials (run_session an env t0 t1 s) =
     (if status s = PENDING
      then trials (snd (worker_loop an env (nat (max_trials s)) 0
                         (s\<lparr>status := RUNNING, started_at := Some t0, updated_at := t0\<rparr>)))
      else trials s)"
  by (simp add: run_session_def transition_to_running_def transition_to_completed_def
        transition_to_failed_def split: prod.splits option.splits sum.splits)

text \<open>
  In a session the worker runs from an empty trial list, the recorded trial ids are
  strictly increasing; each is the index of an iteration in which the executor returned an
  observation, is below \<open>max_trials\<close> and is at least the trial's position.
\<close>

lemma run_session_trial_ids_base:
  assumes "trials s = []"
  shows "let ts = trials (run_session an env t0 t1 s) in
           sorted_wrt (<) (map trial_id ts) \<and>
           (\<forall>p<length ts. int p \<le> trial_id (ts ! p) \<and> trial_id (ts ! p) < max_trials s \<and>
                           applied (env (nat (trial_id (ts ! p)))) \<noteq> None) \<and>
           ((\<forall>j. int j < max_trials s \<longrightarrow> applied (env j) \<noteq> None) \<longrightarrow>
              (\<forall>p<length ts. trial_id (ts ! p) = int p))"
proof -
  define ts where "ts = trials (run_session an env t0 t1 s)"
  have "\<exists>ids. map trial_id ts = map int ids \<and> sorted_wrt (<) ids \<and>
          (\<forall>j\<in>set ids. j < nat (max_trials s) \<and> applied (env j) \<noteq> None) \<and>
          ((\<forall>j. j < nat (max_trials s) \<longrightarrow> applied (env j) \<noteq> None) \<longrightarrow> ids = [0..<length ids])"
  proof (cases "status s = PENDING")
    case True
    define s1 where "s1 = s\<lparr>status := RUNNING, started_at := Some t0, updated_at := t0\<rparr>"
    have "ts = trials (snd (worker_loop an env (nat (max_trials s)) 0 s1))"
      by (simp add: ts_def run_session_trials True s1_def)
    moreover have "trials s1 = []" by (simp add: s1_def assms)
    ultimately show ?thesis
      using worker_loop_ids [of an env "nat (max_trials s)" 0 s1] by simp
  next
    case False
    then have "ts = []" by (simp add: ts_def run_session_trials assms)
    then show ?thesis by (intro exI [of _ "[]"]) simp
  qed
  then obtain ids where ids:
    "map trial_id ts = map int ids" "sorted_wrt (<) ids"
    "\<forall>j\<in>set ids. j < nat (max_trials s) \<and> applied (env j) \<noteq> None"
    "(\<forall>j. j < nat (max_trials s) \<longrightarrow> applied (env j) \<noteq> None) \<longrightarrow> ids = [0..<length ids]"
    by blast
  have len: "length ts = length ids"
    using ids(1) by (metis length_map)
  have nth: "trial_id (ts ! p) = int (ids ! p)" if "p < length ts" for p
    using ids(1) that len by (metis nth_map)
  have sorted: "sorted_wrt (<) (map trial_id ts)"
    using ids(2) by (simp add: ids(1) sorted_wrt_map)
  have each: "int p \<le> trial_id (ts ! p) \<and> trial_id (ts ! p) < max_trials s \<and>
              applied (env (nat (trial_id (ts ! p)))) \<noteq> None" if "p < length ts" for p
  proof -
    have "ids ! p \<in> set ids" using that len by simp
    then have "ids ! p < nat (max_trials s)" "applied (env (ids ! p)) \<noteq> None"
      using ids(3) by simp_all
    moreover have "p \<le> ids ! p"
      using strictly_sorted_nth_ge [OF ids(2)] that len by simp
    ultimately show ?thesis
      using nth [OF that] by simp
  qed
  have contiguous: "\<forall>p<length ts. trial_id (ts ! p) = int p"
    if "\<forall>j. int j < max_trials s \<longrightarrow> applied (env j) \<noteq> None"
  proof -
    have "\<forall>j. j < nat (max_trials s) \<longrightarrow> applied (env j) \<noteq> None"
      using that by simp
    then have "ids = [0..<length ids]" using ids(4) by simp
    then have "ids ! p = p" if "p < length ids" for p
      using that by (metis add_0 nth_upt)
    then show ?thesis using nth len by simp
  qed
  show ?thesis
    unfolding ts_def [symmetric] Let_def
    using sorted each contiguous by blast
qed


text \<open>
  While no iteration stops, fails to propose or fails to record, the loop records
  exactly the iterations in which the executor returned an observation.
\<close>

lemma worker_loop_passing:
  "k \<le> n \<Longrightarrow>
   (\<forall>j. i \<le> j \<and> j < i + k \<longrightarrow>
      \<not> stop_flag_set (env j) \<and> \<not> isl (proposed (env j)) \<and>
      (applied (env j) \<noteq> None \<longrightarrow> record_raises (env j) = None)) \<Longrightarrow>
   \<exists>rest. map trial_id (trials (snd (worker_loop an env n i s)))
            = map trial_id (trials s)
              @ map int (filter (\<lambda>j. applied (env j) \<noteq> None) [i..<i + k]) @ rest \<and>
          (k = n \<longrightarrow> rest = [])"
proof (induction k arbitrary: n i s)
  case 0
  show ?case
  proof (cases n)
    case 0
    then show ?thesis by simp
  next
    case (Suc m)
    obtain ids where "map trial_id (trials (snd (worker_loop an env n i s)))
           = map trial_id (trials s) @ map int ids"
      using worker_loop_ids [of an env n i s] by blast
    then show ?thesis using Suc by simp
  qed
next
  case (Suc k)
  then obtain m where n: "n = Suc m" and km: "k \<le> m" by (cases n) auto
  have here: "\<not> stop_flag_set (env i)" "\<not> isl (proposed (env i))"
    "applied (env i) \<noteq> None \<longrightarrow> record_raises (env i) = None"
    using Suc.prems(2) by simp_all
  then obtain plan where plan: "proposed (env i) = Inr plan"
    by (cases "proposed (env i)") auto
  have later: "\<forall>j. Suc i \<le> j \<and> j < Suc i + k \<longrightarrow>
      \<not> stop_flag_set (env j) \<and> \<not> isl (proposed (env j)) \<and>
      (applied (env j) \<noteq> None \<longrightarrow> record_raises (env j) = None)"
    using Suc.prems(2) by simp
  have range: "[i..<i + Suc k] = i # [Suc i..<Suc i + k]" by (rule upt_from)
  show ?case
  proof (cases "applied (env i)")
    case None
    have step: "worker_loop an env n i s = worker_loop an env m (Suc i) s"
      by (simp add: n here plan None)
    obtain rest where
      "map trial_id (trials (snd (worker_loop an env m (Suc i) s)))
         = map trial_id (trials s)
           @ map int (filter (\<lambda>j. applied (env j) \<noteq> None) [Suc i..<Suc i + k]) @ rest"
      "k = m \<longrightarrow> rest = []"
      using Suc.IH [OF km later, of s] by blast
    then show ?thesis
      unfolding step range using None n by (intro exI [of _ rest]) simp
  next
    case (Some obs)
    define s1 where "s1 = add_trial (clock (env i)) (clock (env i))
          (make_trial i plan obs (total_score (boifi_calculate_severity an obs)) (clock (env i))) s"
    have t1: "map trial_id (trials s1) = map trial_id (trials s) @ [int i]"
      by (simp add: s1_def add_trial_trials make_trial_def)
    have ok: "record_raises (env i) = None" using here(3) Some by simp
    have step: "worker_loop an env n i s = worker_loop an env m (Suc i) s1"
      by (simp add: n here plan Some ok s1_def Let_def)
    obtain rest where
      "map trial_id (trials (snd (worker_loop an env m (Suc i) s1)))
         = map trial_id (trials s1)
           @ map int (filter (\<lambda>j. applied (env j) \<noteq> None) [Suc i..<Suc i + k]) @ rest"
      "k = m \<longrightarrow> rest = []"
      using Suc.IH [OF km later, of s1] by blast
    then show ?thesis
      unfolding step range using Some n t1 by (intro exI [of _ rest]) simp
  qed
qed

text \<open>
  C1. In a session the worker runs from an empty trial list, the recorded trial ids are
  strictly increasing; each is the index of the loop iteration that recorded it, so it is
  below \<open>max_trials\<close> and at least the trial's position, and it equals the position
  when no executor call returns \<open>None\<close>. For the first \<open>k\<close> iterations, as long as
  none of them finds the stop flag set or raises: an iteration whose executor call returns
  an observation records a trial under its own index, and an iteration whose call returns
  \<open>None\<close> records nothing and its index is used by no trial, so the ids are exactly
  the indices of the iterations with an observation, in order; when these are all
  \<open>max_trials\<close> iterations, they are all the ids there are.
\<close>

theorem run_session_trial_ids:
  assumes "trials s = []"
  shows "let ts = trials (run_session an env t0 t1 s) in
           sorted_wrt (<) (map trial_id ts) \<and>
           (\<forall>p<length ts. int p \<le> trial_id (ts ! p) \<and> trial_id (ts ! p) < max_trials s \<and>
                           applied (env (nat (trial_id (ts ! p)))) \<noteq> None) \<and>
           ((\<forall>j. int j < max_trials s \<longrightarrow> applied (env j) \<noteq> None) \<longrightarrow>
              (\<forall>p<length ts. trial_id (ts ! p) = int p)) \<and>
           (status s = PENDING \<and> int k \<le> max_trials s \<and>
            (\<forall>j<k. \<not> stop_flag_set (env j) \<and> \<not> isl (proposed (env j)) \<and>
                    (applied (env j) \<noteq> None \<longrightarrow> record_raises (env j) = None)) \<longrightarrow>
              prefix (map int (filter (\<lambda>j. applied (env j) \<noteq> None) [0..<k])) (map trial_id ts) \<and>
              (\<forall>j<k. int j \<in> set (map trial_id ts) \<longleftrightarrow> applied (env j) \<noteq> None) \<and>
              (int k = max_trials s \<longrightarrow>
                 map trial_id ts = map int (filter (\<lambda>j. applied (env j) \<noteq> None) [0..<k])))"
proof -
  define ts where "ts = trials (run_session an env t0 t1 s)"
  have old: "sorted_wrt (<) (map trial_id ts) \<and>
           (\<forall>p<length ts. int p \<le> trial_id (ts ! p) \<and> trial_id (ts ! p) < max_trials s \<and>
                           applied (env (nat (trial_id (ts ! p)))) \<noteq> None) \<and>
           ((\<forall>j. int j < max_trials s \<longrightarrow> applied (env j) \<noteq> None) \<longrightarrow>
              (\<forall>p<length ts. trial_id (ts ! p) = int p))"
    using run_session_trial_ids_base [OF assms, of an env t0 t1] by (simp add: Let_def ts_def)
  have new: "prefix (map int (filter (\<lambda>j. applied (env j) \<noteq> None) [0..<k])) (map trial_id ts) \<and>
              (\<forall>j<k. int j \<in> set (map trial_id ts) \<longleftrightarrow> applied (env j) \<noteq> None) \<and>
              (int k = max_trials s \<longrightarrow>
                 map trial_id ts = map int (filter (\<lambda>j. applied (env j) \<noteq> None) [0..<k]))"
    if h: "status s = PENDING \<and> int k \<le> max_trials s \<and>
            (\<forall>j<k. \<not> stop_flag_set (env j) \<and> \<not> isl (proposed (env j)) \<and>
                    (applied (env j) \<noteq> None \<longrightarrow> record_raises (env j) = None))"
  proof -
    define s1 where "s1 = s\<lparr>status := RUNNING, started_at := Some t0, updated_at := t0\<rparr>"
    define recorded where "recorded = filter (\<lambda>j. applied (env j) \<noteq> None) [0..<k]"
    have ts1: "ts = trials (snd (worker_loop an env (nat (max_trials s)) 0 s1))"
      using h by (simp add: ts_def run_session_trials s1_def)
    have kn: "k \<le> nat (max_trials s)" using h by linarith
    have pass: "\<forall>j. 0 \<le> j \<and> j < 0 + k \<longrightarrow>
      \<not> stop_flag_set (env j) \<and> \<not> isl (proposed (env j)) \<and>
      (applied (env j) \<noteq> None \<longrightarrow> record_raises (env j) = None)"
      using h by simp
    obtain rest where rest:
      "map trial_id ts = map int recorded @ rest" "k = nat (max_trials s) \<longrightarrow> rest = []"
      using worker_loop_passing [OF kn pass, of an s1] ts1 assms
      by (auto simp: s1_def recorded_def)
    have p: "prefix (map int recorded) (map trial_id ts)"
      using rest(1) by (simp add: prefix_def)
    have mem: "int j \<in> set (map trial_id ts) \<longleftrightarrow> applied (env j) \<noteq> None" if "j < k" for j
    proof
      assume "int j \<in> set (map trial_id ts)"
      then obtain p where p: "p < length ts" "trial_id (ts ! p) = int j"
        by (metis in_set_conv_nth length_map nth_map)
      then have "applied (env (nat (trial_id (ts ! p)))) \<noteq> None" using old by blast
      then show "applied (env j) \<noteq> None" using p by simp
    next
      assume "applied (env j) \<noteq> None"
      then have "j \<in> set recorded" using that by (simp add: recorded_def)
      then show "int j \<in> set (map trial_id ts)" using rest(1) by simp
    qed
    have full: "map trial_id ts = map int recorded" if "int k = max_trials s"
      using rest that by simp
    show ?thesis
      using p mem full unfolding recorded_def by blast
  qed
  show ?thesis
    unfolding ts_def [symmetric] Let_def
    using old new by blast
qed

theorem run_session_trial_ids_witness:
  "trials demo_session = [] \<and> status demo_session = PENDING \<and>
   int 3 = max_trials demo_session \<and>
   applied (env_fail_first 0) = None \<and>
   map trial_id (trials (run_session demo_analyzer env_fail_first 0 9 demo_session)) = [1, 2] \<and>
   map trial_id (trials (run_session demo_analyzer env_all_ok 0 9 demo_session)) = [0, 1, 2]"
proof -
  have e: "trials demo_session = []" by (simp add: demo_session_def)
  have three: "[0..<3] = [0, 1, 2::nat]"
    by (simp add: upt_conv_Cons eval_nat_numeral del: upt_Suc)
  have h1: "status demo_session = PENDING \<and> int 3 \<le> max_trials demo_session \<and>
            (\<forall>j<3. \<not> stop_flag_set (env_fail_first j) \<and> \<not> isl (proposed (env_fail_first j)) \<and>
                    (applied (env_fail_first j) \<noteq> None \<longrightarrow> record_raises (env_fail_first j) = None))"
    by (simp add: demo_session_def env_fail_first_def)
  have h2: "status demo_session = PENDING \<and> int 3 \<le> max_trials demo_session \<and>
            (\<forall>j<3. \<not> stop_flag_set (env_all_ok j) \<and> \<not> isl (proposed (env_all_ok j)) \<and>
                    (applied (env_all_ok j) \<noteq> None \<longrightarrow> record_raises (env_all_ok j) = None))"
    by (simp add: demo_session_def env_all_ok_def)
  have m: "int 3 = max_trials demo_session" by (simp add: demo_session_def)
  have a: "map trial_id (trials (run_session demo_analyzer env_fail_first 0 9 demo_session))
             = map int (filter (\<lambda>j. applied (env_fail_first j) \<noteq> None) [0..<3])"
    using run_session_trial_ids [OF e, of demo_analyzer env_fail_first 0 9 3] h1 m
    unfolding Let_def by blast
  have b: "map trial_id (trials (run_session demo_analyzer env_all_ok 0 9 demo_session))
             = map int (filter (\<lambda>j. applied (env_all_ok j) \<noteq> None) [0..<3])"
    using run_session_trial_ids [OF e, of demo_analyzer env_all_ok 0 9 3] h2 m
    unfolding Let_def by blast
  have a': "map trial_id (trials (run_session demo_analyzer env_fail_first 0 9 demo_session)) = [1, 2]"
    unfolding a three by (simp add: env_fail_first_def)
  have b': "map trial_id (trials (run_session demo_analyzer env_all_ok 0 9 demo_session)) = [0, 1, 2]"
    unfolding b three by (simp add: env_all_ok_def)
  have n: "applied (env_fail_first 0) = None" by (simp add: env_fail_first_def)
  show ?thesis using e h1 m n a' b' by blast
qed

text \<open>
  The executor returns \<open>None\<close> in iteration 0 and observations afterwards: the first
  trial recorded has id 1, not 0.
\<close>

theorem run_session_skipped_id_counterexample:
  "applied (env_fail_first 0) = None \<and>
   length (trials (run_session demo_analyzer env_fail_first 0 9 demo_session)) = 2 \<and>
   trial_id (trials (run_session demo_analyzer env_fail_first 0 9 demo_session) ! 0) = 1 \<and>
   trial_id (trials (run_session demo_analyzer env_fail_first 0 9 demo_session) ! 1) = 2 \<and>
   status (run_session demo_analyzer env_fail_first 0 9 demo_session) = COMPLETED"
  by (simp add: run_session_def transition_to_running_def transition_to_completed_def
        demo_session_def env_fail_first_def eval_nat_numeral add_trial_def make_trial_def Let_def)

section \<open>Results about the optimizer core\<close>

lemma OptimizerCore_init_demo: "OptimizerCore_init demo_dims = Inr demo_core"
  by (simp add: OptimizerCore_init_def demo_dims_def demo_core_def)

lemma record_result_demo: "record_result libs demo_plan 4 demo_core = (None, demo_core_1)"
  by (simp add: record_result_def Let_def demo_core_def demo_core_1_def demo_plan_def demo_dims_def
        plan_get_def)

lemma first_two_entries: "2 \<le> n \<Longrightarrow> map f [0..<n] = f 0 # f 1 # map f [2..<n]"
  by (simp add: upt_conv_Cons numeral_2_eq_2 del: upt_Suc)

text \<open>
  With anything recorded and the import failing, every proposal raises.
\<close>

lemma propose_import_error:
  "observation_history_y core \<noteq> [] \<Longrightarrow> skopt_cartesian_product libs = None \<Longrightarrow>
   propose libs g core = Inl ImportError"
  by (simp add: propose_def select_next_point_def)

text \<open>
  With the model not fitted every array gets the same score, and the selector returns the
  first dimension's array of draws.
\<close>

lemma select_next_point_demo:
  "skopt_cartesian_product libs = Some cp \<Longrightarrow>
   select_next_point libs (dimensions demo_core_1) (surrogate_model demo_core_1)
       (best_value demo_core_1) n_candidates
     = Inr (Some (map (\<lambda>j. PyFloat (np_uniform libs 0 100 5000 j)) [0..<n_candidates]))"
  by (simp add: select_next_point_def demo_core_1_def demo_core_def ends_with_zero_def
        predict_with_uncertainty_def expected_improvement_def argmax_def Let_def
        numeral_2_eq_2)

text \<open>
  C8. One result is recorded, fewer than the five initial points the configuration
  declares. With nothing recorded \<open>propose\<close> returns the draws of the random source.
  After one record it calls the selector instead. Where \<open>cartesian_product\<close> cannot be
  imported the call raises. Where it can, the model is not yet fitted, every candidate
  array gets the same score, the first dimension's array is returned as the point, and the
  plan takes its first two entries: \<open>kind\<close> gets a number drawn for \<open>delay_ms\<close>, and
  the random source is not drawn from. Either way the proposal is no sample of the space.
\<close>

theorem propose_after_one_result_is_no_sample:
  "OptimizerCore_init demo_dims = Inr demo_core \<and>
   propose libs demo_rng demo_core
     = Inr ([(''delay_ms'', PyFloat 2550), (''kind'', PyStr ''abort'')], demo_rng\<lparr>calls := 2\<rparr>) \<and>
   record_result libs demo_plan 4 demo_core = (None, demo_core_1) \<and>
   int (length (observation_history_y demo_core_1)) < OPTIMIZER_INITIAL_POINTS \<and>
   propose libs g demo_core_1 =
     (case skopt_cartesian_product libs of
        None \<Rightarrow> Inl ImportError
      | Some cartesian_product \<Rightarrow>
          Inr ([(''delay_ms'', PyFloat (np_uniform libs 0 100 5000 0)),
                (''kind'', PyFloat (np_uniform libs 0 100 5000 1))], g))"
proof -
  have cold: "propose libs demo_rng demo_core
     = Inr ([(''delay_ms'', PyFloat 2550), (''kind'', PyStr ''abort'')], demo_rng\<lparr>calls := 2\<rparr>)"
    by (simp add: propose_def demo_core_def demo_rng_def demo_dims_def point_to_dict_def
          eval_nat_numeral)
  have few: "int (length (observation_history_y demo_core_1)) < OPTIMIZER_INITIAL_POINTS"
    by (simp add: demo_core_1_def OPTIMIZER_INITIAL_POINTS_def)
  have hist: "length (observation_history_y demo_core_1) \<noteq> 0"
    by (simp add: demo_core_1_def)
  have cfg: "dimensions_config demo_core_1 = demo_dims"
    by (simp add: demo_core_1_def demo_core_def)
  have warm: "propose libs g demo_core_1 =
     (case skopt_cartesian_product libs of
        None \<Rightarrow> Inl ImportError
      | Some cartesian_product \<Rightarrow>
          Inr ([(''delay_ms'', PyFloat (np_uniform libs 0 100 5000 0)),
                (''kind'', PyFloat (np_uniform libs 0 100 5000 1))], g))"
  proof (cases "skopt_cartesian_product libs")
    case None
    then show ?thesis using hist by (simp add: propose_import_error)
  next
    case (Some cp)
    have "(2::nat) \<le> n_candidates" by (simp add: n_candidates_def)
    then have two: "map (\<lambda>j. PyFloat (np_uniform libs 0 100 5000 j)) [0..<n_candidates]
        = PyFloat (np_uniform libs 0 100 5000 0) # PyFloat (np_uniform libs 0 100 5000 1)
          # map (\<lambda>j. PyFloat (np_uniform libs 0 100 5000 j)) [2..<n_candidates]"
      by (rule first_two_entries)
    show ?thesis
      using hist Some
      by (simp add: propose_def select_next_point_demo [OF Some] cfg two demo_dims_def
            point_to_dict_def)
  qed
  show ?thesis
    using OptimizerCore_init_demo cold record_result_demo few warm by blast
qed

lemma tripped_client_eq:
  "tripped_client = demo_client\<lparr>circuit_breaker :=
      \<lparr>failure_threshold = 5, recovery_timeout = 60, state = OPEN,
       failure_count = 5, last_failure_time = Some 5\<rparr>\<rparr>"
  by (simp add: tripped_client_def demo_client_eq record_failure_def Let_def)

section \<open>The half-open breaker admits more than one call\<close>

text \<open>
  When the admitted call times out, a failure is recorded, the breaker reopens, and the
  next call is refused without an attempt.
\<close>

lemma timeout_probe_reopens:
  "state (circuit_breaker (fst (snd (apply_policy 100 env_timeout_late tripped_client)))) = OPEN \<and>
   apply_policy 110 env_503 (fst (snd (apply_policy 100 env_timeout_late tripped_client)))
     = (None, fst (snd (apply_policy 100 env_timeout_late tripped_client)), [])"
  by (simp add: tripped_client_eq demo_client_eq apply_policy_def can_attempt_def env_timeout_late_def
        eval_nat_numeral delay_with_backoff_def record_failure_def Let_def)

text \<open>
  C6. The breaker is open and the recovery timeout has passed. On the breaker alone, the
  call at 100 is admitted and moves it to \<open>HALF_OPEN\<close>, and with no outcome recorded the
  calls at 101 and at 102 are admitted as well: \<open>can_attempt\<close> keeps no count of the calls
  it lets through, although its comment says that \<open>HALF_OPEN\<close> allows one attempt. In the
  client this is reached when the executor answers every attempt of the admitted call with
  503: the call at 100 makes its five attempts and records nothing, the breaker stays
  \<open>HALF_OPEN\<close>, and the call at 101 is admitted and makes five attempts too.
\<close>

theorem half_open_admits_repeated_calls:
  "state tripped_breaker = OPEN \<and>
   fst (can_attempt 100 tripped_breaker) \<and>
   state (snd (can_attempt 100 tripped_breaker)) = HALF_OPEN \<and>
   fst (can_attempt 101 (snd (can_attempt 100 tripped_breaker))) \<and>
   fst (can_attempt 102 (snd (can_attempt 101 (snd (can_attempt 100 tripped_breaker))))) \<and>
   state (circuit_breaker tripped_client) = OPEN \<and>
   apply_policy 10 env_503 tripped_client = (None, tripped_client, []) \<and>
   fst (apply_policy 100 env_503 tripped_client) = None \<and>
   snd (snd (apply_policy 100 env_503 tripped_client)) = [1 / 2, 1, 2, 4, 8] \<and>
   state (circuit_breaker (fst (snd (apply_policy 100 env_503 tripped_client)))) = HALF_OPEN \<and>
   fst (apply_policy 101 env_503 (fst (snd (apply_policy 100 env_503 tripped_client)))) = None \<and>
   snd (snd (apply_policy 101 env_503 (fst (snd (apply_policy 100 env_503 tripped_client)))))
     = [1 / 2, 1, 2, 4, 8]"
  by (simp add: tripped_breaker_eq tripped_client_eq demo_client_eq apply_policy_def can_attempt_def
        env_503_def eval_nat_numeral delay_with_backoff_def)

end
